theory Spec2Isabelle
  imports Complex_Main "HOL-Library.Char_ord" "HOL-Library.List_Lexorder"
begin

section \<open>Values shared by the widgets\<close>

text \<open>
  Python exceptions are values. Only the classes that the modelled code raises, catches
  or lets through are distinguished; \<open>OtherError\<close> stands for any exception class that is
  neither \<open>ValueError\<close> nor \<open>RuntimeError\<close> nor one of the others listed.
\<close>

datatype py_error =
    NameError | KeyError | IndexError | ValueError | RuntimeError
  | TypeError | AttributeError | AssertionError | ConflictError | OtherError

text \<open>
  A Python float is a finite number, an infinity or NaN. The operations below compare
  floats and ask whether they are finite, so the finite ones are reals; every comparison
  with NaN is false, as in IEEE 754. Where the code multiplies floats, the product is a
  parameter of the operation.
\<close>

datatype pyfloat = Fin real | PosInf | NegInf | NaN

fun isfinite :: "pyfloat \<Rightarrow> bool" where
  "isfinite (Fin _) = True"
| "isfinite _ = False"

fun float_le :: "pyfloat \<Rightarrow> pyfloat \<Rightarrow> bool" where
  "float_le NaN _ = False"
| "float_le _ NaN = False"
| "float_le NegInf _ = True"
| "float_le _ PosInf = True"
| "float_le (Fin a) (Fin b) = (a \<le> b)"
| "float_le _ _ = False"

fun float_lt :: "pyfloat \<Rightarrow> pyfloat \<Rightarrow> bool" where
  "float_lt NaN _ = False"
| "float_lt _ NaN = False"
| "float_lt (Fin a) (Fin b) = (a < b)"
| "float_lt NegInf NegInf = False"
| "float_lt NegInf _ = True"
| "float_lt PosInf _ = False"
| "float_lt (Fin _) PosInf = True"
| "float_lt (Fin _) NegInf = False"

text \<open>Python's \<open>a >= b\<close> is \<open>float_le b a\<close>, and \<open>a > b\<close> is \<open>float_lt b a\<close>.\<close>

abbreviation float_ge :: "pyfloat \<Rightarrow> pyfloat \<Rightarrow> bool" where
  "float_ge a b \<equiv> float_le b a"

type_synonym interval = "pyfloat \<times> pyfloat"

section \<open>Removing the mask that contains a wavelength\<close>

text \<open>
  \<open>del mask[index]\<close> for an index inside the list.
\<close>

definition del_at :: "nat \<Rightarrow> 'a list \<Rightarrow> 'a list" where
  "del_at i xs = take i xs @ drop (Suc i) xs"

text \<open>
  The loop header \<open>for i, (s, e) in enumerate(mask[::-1])\<close> with its test
  \<open>e >= event.xdata >= s\<close>, a chained comparison: \<open>e >= xdata and xdata >= s\<close>.
  The function returns the position, in the reversed list, of the first interval that
  passes the test; the counter is the \<open>i\<close> of \<open>enumerate\<close>.
\<close>

fun first_containing :: "interval list \<Rightarrow> pyfloat \<Rightarrow> nat \<Rightarrow> nat option" where
  "first_containing [] x i = None"
| "first_containing ((s, e) # rest) x i =
     (if float_ge e x \<and> float_ge x s then Some i else first_containing rest x (Suc i))"

text \<open>
  The body of the loop as both widgets write it: on the first hit,
  \<open>index = len(mask) - 1 - i; del mask[index]\<close> and the loop is left (\<open>return True\<close> in
  \<open>SMHSpecDisplay._remove_mask\<close>, \<open>break\<close> in
  \<open>ChemicalAbundancesTab.spectrum_axis_mouse_press\<close>); without a hit the list is not
  touched (\<open>return False\<close>, respectively the \<open>else\<close> branch of the loop).
\<close>

definition remove_mask_loop :: "interval list \<Rightarrow> pyfloat \<Rightarrow> bool \<times> interval list" where
  "remove_mask_loop mask_list x =
     (case first_containing (rev mask_list) x 0 of
        Some i \<Rightarrow> (True, del_at (length mask_list - 1 - i) mask_list)
      | None \<Rightarrow> (False, mask_list))"

text \<open>
  Python resolves a name in the local scope of the function, then in the module. A scope
  is a map from names to values; a name that is bound nowhere raises \<open>NameError\<close> when it
  is evaluated.
\<close>

definition lookup_name :: "(string \<rightharpoonup> 'a) \<Rightarrow> string \<Rightarrow> py_error + 'a" where
  "lookup_name scope name = (case scope name of None \<Rightarrow> Inl NameError | Some v \<Rightarrow> Inr v)"

text \<open>
  \<open>SMHSpecDisplay._remove_mask(self, selected_model, event)\<close>. Its parameters bind
  \<open>selected_model\<close>; its body reads the mask through the name \<open>spectral_model\<close>, which is
  neither a parameter or local of the function nor a global of the module
  \<open>smh/gui/base.py\<close>. The argument is given by its mask list; the scope of the call
  holds that one binding.
\<close>

definition remove_mask_body :: "(string \<rightharpoonup> interval list) \<Rightarrow> pyfloat \<Rightarrow> py_error + bool \<times> interval list" where
  "remove_mask_body scope xdata =
     (case lookup_name scope ''spectral_model'' of
        Inl err \<Rightarrow> Inl err
      | Inr mask_list \<Rightarrow> Inr (remove_mask_loop mask_list xdata))"

definition remove_mask :: "interval list \<Rightarrow> pyfloat \<Rightarrow> py_error + bool \<times> interval list" where
  "remove_mask selected_model_mask xdata =
     remove_mask_body [''selected_model'' \<mapsto> selected_model_mask] xdata"

text \<open>
  The double-click branch of \<open>ChemicalAbundancesTab.spectrum_axis_mouse_press\<close> runs the
  same loop on \<open>spectral_model.metadata["mask"]\<close>, where \<open>spectral_model\<close> is the local
  bound from \<open>self._get_selected_model(True)\<close>.
\<close>

definition dblclick_remove_mask :: "interval list \<Rightarrow> pyfloat \<Rightarrow> bool \<times> interval list" where
  "dblclick_remove_mask mask_list xdata = remove_mask_loop mask_list xdata"

text \<open>The test of the loop as a predicate on an interval \<open>[s, e]\<close>: \<open>s <= x <= e\<close>.\<close>

definition interval_contains :: "interval \<Rightarrow> pyfloat \<Rightarrow> bool" where
  "interval_contains iv x = (float_ge (snd iv) x \<and> float_ge x (fst iv))"

section \<open>Bounds of the Balmer-line fit parameters\<close>

text \<open>
  \<open>BalmerLineOptionsTableModel.setData\<close> for a column other than 0. The table has three
  columns (\<open>columnCount\<close> returns 3): column 1 edits the lower bound and column 2 the upper
  bound of the parameter in the row. \<open>self.parent.metadata["bounds"]\<close> is a dict from the
  parameter name to the two-element list \<open>[lower, upper]\<close>, either entry \<open>None\<close>.
\<close>

datatype bound_column = LowerColumn | UpperColumn

type_synonym bounds = "string \<rightharpoonup> (pyfloat option \<times> pyfloat option)"

text \<open>What a call does apart from the state it leaves: it returns a value or raises.\<close>

datatype 'a outcome = Returned 'a | Raised py_error

text \<open>
  \<open>dict.setdefault(parameter, [None, None])\<close>: stores the default only when the key is
  absent.
\<close>

definition setdefault_bounds :: "bounds \<Rightarrow> string \<Rightarrow> bounds" where
  "setdefault_bounds b parameter =
     (case b parameter of None \<Rightarrow> b(parameter \<mapsto> (None, None)) | Some _ \<Rightarrow> b)"

text \<open>
  The bounds as \<open>BalmerLineOptionsTableModel.data\<close> reads them:
  \<open>metadata["bounds"].get(parameter, (None, None))\<close>.
\<close>

definition bounds_view :: "bounds \<Rightarrow> string \<Rightarrow> pyfloat option \<times> pyfloat option" where
  "bounds_view b parameter = (case b parameter of None \<Rightarrow> (None, None) | Some lu \<Rightarrow> lu)"

text \<open>
  The edited value arrives as \<open>Some v\<close> when \<open>float(value)\<close> succeeds and as \<open>None\<close> when
  it raises (the bare \<open>except\<close> returns False). The row indexes \<open>self._parameters\<close>; a
  row past its end raises IndexError before anything else happens. The result is the
  bounds dict after the call and what the call returned or raised.
\<close>

definition setData_bounds ::
  "string list \<Rightarrow> nat \<Rightarrow> bound_column \<Rightarrow> pyfloat option \<Rightarrow> bounds \<Rightarrow> bounds \<times> bool outcome" where
  "setData_bounds parameters row column value b =
     (if length parameters \<le> row then (b, Raised IndexError)
      else
        let parameter = parameters ! row;
            b1 = setdefault_bounds b parameter
        in case value of
             None \<Rightarrow> (b1, Returned False)
           | Some v \<Rightarrow>
               (case bounds_view b1 parameter of (lower, upper) \<Rightarrow>
                  if (column = LowerColumn \<and> (case upper of None \<Rightarrow> False | Some u \<Rightarrow> float_ge v u))
                     \<or> (column = UpperColumn \<and> (case lower of None \<Rightarrow> False | Some l \<Rightarrow> float_le v l))
                  then (b1, Raised ValueError)
                  else if \<not> isfinite v then (b1, Returned False)
                  else (b1(parameter \<mapsto>
                          (case column of LowerColumn \<Rightarrow> (Some v, upper)
                                        | UpperColumn \<Rightarrow> (lower, Some v))),
                        Returned True)))"

section \<open>Transitions, spectral models and the session\<close>

text \<open>
  A row of the line list (\<open>session.metadata["line_list"]\<close>, a table). Only the columns
  that the modelled code reads are kept; \<open>equivalent_width\<close> is the optional column of
  pre-measured line lists, \<open>None\<close> where the table has no such value. Hashes are strings.
\<close>

record transition =
  hash :: string
  wavelength :: pyfloat
  element :: string
  equivalent_width :: "pyfloat option"

datatype model_kind = ProfileFittingModel | SpectralSynthesisModel

text \<open>
  The third entry of \<open>metadata["fitted_result"]\<close>, a dict: the equivalent width with its
  two uncertainties, and the abundances. \<open>None\<close> is an absent key.
\<close>

record fit_meta =
  fit_equivalent_width :: "(pyfloat \<times> pyfloat \<times> pyfloat) option"
  fit_abundances :: "pyfloat list option"

text \<open>
  A spectral model: its class, \<open>_transition_hashes\<close>, the cached \<open>_transition_indices\<close>,
  and the entries of its \<open>metadata\<close> dict that the modelled code reads or writes (the
  fields named \<open>md_...\<close>; \<open>None\<close> is an absent key).
\<close>

record spectral_model =
  kind :: model_kind
  transition_hashes :: "string list"
  transition_indices :: "nat list"
  md_is_acceptable :: "bool option"
  md_fitted_result :: "fit_meta option"
  md_mask :: "interval list option"
  md_antimask_flag :: "bool option"

text \<open>
  The session: \<open>metadata["line_list"]\<close>, \<open>metadata["spectral_models"]\<close> and
  \<open>metadata["line_list_argsort_hashes"]\<close> (\<open>None\<close> when the key is absent), and the
  attribute \<open>_spectral_model_conflicts\<close>.
\<close>

record session =
  line_list :: "transition list option"
  spectral_models :: "spectral_model list option"
  line_list_argsort_hashes :: "nat list option"
  spectral_model_conflicts :: "nat list list"

text \<open>
  \<open>np.argsort\<close>: the positions of a column in ascending order of its values. Hashes are
  unique within a line list, and for distinct values the result does not depend on the
  sorting algorithm.
\<close>

definition argsort :: "('a::linorder) list \<Rightarrow> nat list" where
  "argsort xs = sort_key (\<lambda>i. xs ! i) [0..<length xs]"

definition hash_index :: "transition list \<Rightarrow> nat list" where
  "hash_index ll = argsort (map hash ll)"

subsection \<open>The line-list table\<close>

text \<open>
  \<open>LineListTableModel.sort\<close>. Without a line list it returns at once. The column number
  indexes \<open>self.columns\<close>, and a number past its end raises IndexError before the table
  is touched. The sort of the table by a named column is the table library's; it is the
  parameter \<open>table_sort\<close>.
\<close>

definition line_list_columns :: "string list" where
  "line_list_columns =
     [''wavelength'', ''element'', ''expot'', ''loggf'', ''damp_vdw'', ''dissoc_E'', ''comments'']"

definition sort_line_list ::
  "(string \<Rightarrow> transition list \<Rightarrow> transition list) \<Rightarrow> nat \<Rightarrow> bool \<Rightarrow> session
     \<Rightarrow> session \<times> unit outcome" where
  "sort_line_list table_sort column descending s =
     (case line_list s of
        None \<Rightarrow> (s, Returned ())
      | Some ll \<Rightarrow>
          if length line_list_columns \<le> column then (s, Raised IndexError)
          else
            let ll1 = table_sort (line_list_columns ! column) ll;
                ll2 = (if descending then rev ll1 else ll1)
            in (s\<lparr>line_list := Some ll2, line_list_argsort_hashes := Some (hash_index ll2)\<rparr>,
                Returned ()))"

text \<open>
  \<open>LineListTableView.delete_selected_rows\<close>. First the hashes used by any model:
  \<open>metadata.get("spectral_models", [])\<close>, every \<open>_transition_hashes\<close>, made unique.
\<close>

definition all_hashes_used :: "session \<Rightarrow> string list" where
  "all_hashes_used s =
     remdups (concat (map transition_hashes
       (case spectral_models s of None \<Rightarrow> [] | Some ms \<Rightarrow> ms)))"

text \<open>
  The loop over the selected rows: a row whose hash is used by a model is counted in
  \<open>N_skipped\<close>, any other row is cleared in the boolean mask. Reading the hash of a row
  past the end of the table raises IndexError.
\<close>

fun mark_selected ::
  "string list \<Rightarrow> string list \<Rightarrow> nat list \<Rightarrow> bool list \<Rightarrow> nat \<Rightarrow> py_error + bool list \<times> nat" where
  "mark_selected hashes used [] keep n_skipped = Inr (keep, n_skipped)"
| "mark_selected hashes used (row # rows) keep n_skipped =
     (if length hashes \<le> row then Inl IndexError
      else if hashes ! row \<in> set used
        then mark_selected hashes used rows keep (n_skipped + 1)
        else mark_selected hashes used rows (keep[row := False]) n_skipped)"

text \<open>\<open>table[mask]\<close>: the rows at which the boolean mask is true.\<close>

definition select_rows :: "'a list \<Rightarrow> bool list \<Rightarrow> 'a list" where
  "select_rows xs keep = map fst (filter snd (zip xs keep))"

text \<open>
  The result is the session after the call and \<open>N_skipped\<close>: the warning dialog
  ("line(s) selected for deletion cannot be removed because they are associated with
  existing spectral models") is shown exactly when it is positive. The function raises no
  exception of its own.
\<close>

definition delete_selected_rows :: "nat list \<Rightarrow> session \<Rightarrow> session \<times> nat outcome" where
  "delete_selected_rows rows s =
     (case line_list s of
        None \<Rightarrow> (s, Raised KeyError)
      | Some ll \<Rightarrow>
          (case mark_selected (map hash ll) (all_hashes_used s) rows
                  (replicate (length ll) True) 0 of
             Inl err \<Rightarrow> (s, Raised err)
           | Inr (keep, n_skipped) \<Rightarrow>
               if list_all (\<lambda>b. b) keep then (s, Returned n_skipped)
               else
                 let ll' = select_rows ll keep
                 in (s\<lparr>line_list := Some ll', line_list_argsort_hashes := Some (hash_index ll')\<rparr>,
                     Returned n_skipped)))"

text \<open>
  \<open>LineListTableView.import_from_filename\<close>. The files have been read: \<open>files\<close> holds one
  line list per file name. \<open>LineList.merge\<close> is not among the sources; it is the
  parameter \<open>merge\<close>, which returns the merged list or raises. An empty list of file names
  returns None at once.
\<close>

fun merge_all ::
  "(transition list \<Rightarrow> transition list \<Rightarrow> py_error + transition list)
     \<Rightarrow> transition list \<Rightarrow> transition list list \<Rightarrow> py_error + transition list" where
  "merge_all merge acc [] = Inr acc"
| "merge_all merge acc (new_lines # rest) =
     (case merge acc new_lines of
        Inl err \<Rightarrow> Inl err
      | Inr merged \<Rightarrow> merge_all merge merged rest)"

definition import_from_filename ::
  "(transition list \<Rightarrow> transition list \<Rightarrow> py_error + transition list)
     \<Rightarrow> transition list list \<Rightarrow> session \<Rightarrow> session \<times> transition list option outcome" where
  "import_from_filename merge files s =
     (case files of
        [] \<Rightarrow> (s, Returned None)
      | first # rest \<Rightarrow>
          (case merge_all merge first rest of
             Inl err \<Rightarrow> (s, Raised err)
           | Inr imported \<Rightarrow>
               (case line_list s of
                  None \<Rightarrow>
                    (s\<lparr>line_list := Some imported,
                       line_list_argsort_hashes := Some (hash_index imported)\<rparr>,
                     Returned (Some imported))
                | Some ll \<Rightarrow>
                    (case merge ll imported of
                       Inl err \<Rightarrow> (s, Raised err)
                     | Inr merged \<Rightarrow>
                         (s\<lparr>line_list := Some merged,
                            line_list_argsort_hashes := Some (hash_index merged)\<rparr>,
                          Returned (Some imported))))))"

subsection \<open>Creating and deleting spectral models\<close>

text \<open>
  The function \<open>spectral_model_conflicts(spectral_models, line_list)\<close> is imported from
  \<open>smh.utils\<close> and the two model classes from \<open>smh.spectral_models\<close>; neither module
  is among the sources. They are parameters of the operations that call them:
  \<open>conflicts\<close> for the function, \<open>new_profile\<close> and \<open>new_synthesis\<close> for the constructors
  (which receive the session and the transition hashes, the second also the elements).
\<close>

type_synonym conflicts_fn = "spectral_model list \<Rightarrow> transition list \<Rightarrow> nat list list"

text \<open>\<open>metadata.setdefault("spectral_models", [])\<close> followed by reading the list.\<close>

definition models_or_empty :: "session \<Rightarrow> spectral_model list" where
  "models_or_empty s = (case spectral_models s of None \<Rightarrow> [] | Some ms \<Rightarrow> ms)"

text \<open>
  \<open>LineListTableView.add_selected_rows_as_profile_models\<close>: one profile model per selected
  row, appended to the model list, then the conflicts are recomputed.
\<close>

definition add_selected_rows_as_profile_models ::
  "(session \<Rightarrow> string list \<Rightarrow> spectral_model) \<Rightarrow> conflicts_fn \<Rightarrow> nat list \<Rightarrow> session
     \<Rightarrow> session \<times> unit outcome" where
  "add_selected_rows_as_profile_models new_profile conflicts rows s =
     (case line_list s of
        None \<Rightarrow> (s, Raised KeyError)
      | Some ll \<Rightarrow>
          if list_ex (\<lambda>row. length ll \<le> row) rows then (s, Raised IndexError)
          else
            let to_add = map (\<lambda>row. new_profile s [hash (ll ! row)]) rows;
                ms = models_or_empty s @ to_add
            in (s\<lparr>spectral_models := Some ms, spectral_model_conflicts := conflicts ms ll\<rparr>,
                Returned ()))"

text \<open>
  \<open>LineListTableView.add_selected_rows_as_synthesis_model\<close>: one synthesis model for all
  selected rows. \<open>unique_elements\<close> is a property of the line-list class (a parameter
  here). With one element the model measures it; otherwise a dialog asks, and
  \<open>dialog_selected\<close> is what the user picked there: nothing picked returns without a new
  model, after \<open>setdefault\<close> has created the model list.
\<close>

definition add_selected_rows_as_synthesis_model ::
  "(session \<Rightarrow> string list \<Rightarrow> string list \<Rightarrow> spectral_model) \<Rightarrow> (transition list \<Rightarrow> string list)
     \<Rightarrow> conflicts_fn \<Rightarrow> nat list \<Rightarrow> string list \<Rightarrow> session \<Rightarrow> session \<times> unit outcome" where
  "add_selected_rows_as_synthesis_model new_synthesis unique_elements conflicts rows
       dialog_selected s =
     (case line_list s of
        None \<Rightarrow> (s, Raised KeyError)
      | Some ll \<Rightarrow>
          if list_ex (\<lambda>row. length ll \<le> row) rows then (s, Raised IndexError)
          else
            let transitions = map (\<lambda>row. ll ! row) rows;
                elements = unique_elements transitions;
                s1 = s\<lparr>spectral_models := Some (models_or_empty s)\<rparr>
            in if length elements \<noteq> 1 \<and> dialog_selected = [] then (s1, Returned ())
               else
                 let measured = (if length elements = 1 then elements else dialog_selected);
                     ms = models_or_empty s1 @ [new_synthesis s1 (map hash transitions) measured]
                 in (s1\<lparr>spectral_models := Some ms, spectral_model_conflicts := conflicts ms ll\<rparr>,
                     Returned ()))"

text \<open>
  \<open>LineListTableView.add_imported_lines_as_profile_models\<close>: import the files, then one
  profile model per imported transition.
\<close>

definition add_imported_lines_as_profile_models ::
  "(transition list \<Rightarrow> transition list \<Rightarrow> py_error + transition list)
     \<Rightarrow> (session \<Rightarrow> string list \<Rightarrow> spectral_model) \<Rightarrow> conflicts_fn
     \<Rightarrow> transition list list \<Rightarrow> session \<Rightarrow> session \<times> unit outcome" where
  "add_imported_lines_as_profile_models merge new_profile conflicts files s =
     (case import_from_filename merge files s of
        (s1, Raised err) \<Rightarrow> (s1, Raised err)
      | (s1, Returned None) \<Rightarrow> (s1, Returned ())
      | (s1, Returned (Some transitions)) \<Rightarrow>
          (case line_list s1 of
             None \<Rightarrow> (s1, Raised KeyError)
           | Some ll \<Rightarrow>
               let to_add = map (\<lambda>t. new_profile s1 [hash t]) transitions;
                   ms = models_or_empty s1 @ to_add
               in (s1\<lparr>spectral_models := Some ms, spectral_model_conflicts := conflicts ms ll\<rparr>,
                   Returned ())))"

text \<open>
  \<open>LineListTableView.add_imported_lines_as_synthesis_model\<close>: import the files, then one
  synthesis model per file. With \<open>input_elements\<close> given, one entry per file, each entry
  must name an element (an assertion) and is what the model of that file measures.
  Otherwise a file with one element gives a model that measures it, and for any other
  file a dialog asks: \<open>ask\<close> is what the user picks for the transitions of a file, and a
  file for which nothing is picked is skipped. Each constructor receives the session
  with the models appended so far.
\<close>

definition append_model :: "spectral_model \<Rightarrow> session \<Rightarrow> session" where
  "append_model m s = s\<lparr>spectral_models := Some (models_or_empty s @ [m])\<rparr>"

fun add_synthesis_given ::
  "(session \<Rightarrow> string list \<Rightarrow> string list \<Rightarrow> spectral_model)
     \<Rightarrow> (transition list \<times> string list) list \<Rightarrow> session \<Rightarrow> session" where
  "add_synthesis_given new_synthesis [] s = s"
| "add_synthesis_given new_synthesis ((transitions, elements_to_measure) # rest) s =
     add_synthesis_given new_synthesis rest
       (append_model (new_synthesis s (map hash transitions) elements_to_measure) s)"

fun add_synthesis_asking ::
  "(session \<Rightarrow> string list \<Rightarrow> string list \<Rightarrow> spectral_model) \<Rightarrow> (transition list \<Rightarrow> string list)
     \<Rightarrow> (transition list \<Rightarrow> string list) \<Rightarrow> transition list list \<Rightarrow> session \<Rightarrow> session" where
  "add_synthesis_asking new_synthesis unique_elements ask [] s = s"
| "add_synthesis_asking new_synthesis unique_elements ask (transitions # rest) s =
     (if length (unique_elements transitions) = 1
      then add_synthesis_asking new_synthesis unique_elements ask rest
             (append_model (new_synthesis s (map hash transitions) (unique_elements transitions)) s)
      else if ask transitions = []
      then add_synthesis_asking new_synthesis unique_elements ask rest s
      else add_synthesis_asking new_synthesis unique_elements ask rest
             (append_model (new_synthesis s (map hash transitions) (ask transitions)) s))"

definition add_imported_lines_as_synthesis_model ::
  "(transition list \<Rightarrow> transition list \<Rightarrow> py_error + transition list)
     \<Rightarrow> (session \<Rightarrow> string list \<Rightarrow> string list \<Rightarrow> spectral_model) \<Rightarrow> (transition list \<Rightarrow> string list)
     \<Rightarrow> (transition list \<Rightarrow> string list) \<Rightarrow> conflicts_fn
     \<Rightarrow> transition list list \<Rightarrow> string list list option \<Rightarrow> session \<Rightarrow> session \<times> unit outcome" where
  "add_imported_lines_as_synthesis_model merge new_synthesis unique_elements ask conflicts files
       input_elements s =
     (case import_from_filename merge files s of
        (s1, Raised err) \<Rightarrow> (s1, Raised err)
      | (s1, Returned None) \<Rightarrow> (s1, Returned ())
      | (s1, Returned (Some full_line_list)) \<Rightarrow>
          let s2 = s1\<lparr>spectral_models := Some (models_or_empty s1)\<rparr>
          in (case (case input_elements of
                      None \<Rightarrow> Inr (add_synthesis_asking new_synthesis unique_elements ask files s2)
                    | Some given \<Rightarrow>
                        if length files = length given
                        then (if list_ex (\<lambda>elements_to_measure. elements_to_measure = []) given
                              then Inl AssertionError
                              else Inr (add_synthesis_given new_synthesis (zip files given) s2))
                        else Inr (add_synthesis_asking new_synthesis unique_elements ask files s2)) of
                Inl err \<Rightarrow> (s2, Raised err)
              | Inr s3 \<Rightarrow>
                  (case line_list s3 of
                     None \<Rightarrow> (s3, Raised KeyError)
                   | Some ll \<Rightarrow>
                       (s3\<lparr>spectral_model_conflicts := conflicts (models_or_empty s3) ll\<rparr>,
                        Returned ()))))"

text \<open>
  \<open>TransitionsDialog.import_transitions\<close> for a chosen path. \<open>Session.import_transitions\<close>
  is not among the sources; it is the parameter \<open>session_import\<close>, which gives the session
  after the import and the number of spectral models loaded. The conflicts are
  recomputed when that number is positive.
\<close>

definition import_transitions ::
  "(session \<Rightarrow> session \<times> nat) \<Rightarrow> conflicts_fn \<Rightarrow> session \<Rightarrow> session \<times> unit outcome" where
  "import_transitions session_import conflicts s =
     (case session_import s of
        (s1, n) \<Rightarrow>
          if 0 < n
          then (case spectral_models s1 of
                  None \<Rightarrow> (s1, Raised KeyError)
                | Some ms \<Rightarrow>
                    (case line_list s1 of
                       None \<Rightarrow> (s1, Raised KeyError)
                     | Some ll \<Rightarrow> (s1\<lparr>spectral_model_conflicts := conflicts ms ll\<rparr>, Returned ())))
          else (s1, Returned ()))"

text \<open>
  \<open>SpectralModelsTableView.delete_selected_rows\<close>: the models at the selected positions
  are dropped, then the conflicts are recomputed from the new list and the line list.
\<close>

definition delete_selected_models ::
  "conflicts_fn \<Rightarrow> nat list \<Rightarrow> session \<Rightarrow> session \<times> unit outcome" where
  "delete_selected_models conflicts delete_indices s =
     (case spectral_models s of
        None \<Rightarrow> (s, Raised KeyError)
      | Some ms \<Rightarrow>
          let ms' = map snd (filter (\<lambda>(i, sm). i \<notin> set delete_indices) (enumerate 0 ms));
              s1 = s\<lparr>spectral_models := Some ms'\<rparr>
          in (case line_list s1 of
                None \<Rightarrow> (s1, Raised KeyError)
              | Some ll \<Rightarrow> (s1\<lparr>spectral_model_conflicts := conflicts ms' ll\<rparr>, Returned ())))"

subsection \<open>Importing transitions with measured equivalent widths\<close>

text \<open>
  A table has the column \<open>equivalent_width\<close> when each of its rows has a value there.
\<close>

definition has_equivalent_width_column :: "transition list \<Rightarrow> bool" where
  "has_equivalent_width_column ll = list_all (\<lambda>t. equivalent_width t \<noteq> None) ll"

text \<open>
  The model made for one imported row: a profile model on the row's hash whose metadata
  is updated with \<open>is_acceptable = True\<close> and a fitted result that holds the equivalent
  width \<open>(1e-3 * w, 0.0, 0.0)\<close>. The float product \<open>1e-3 * w\<close> is the parameter \<open>milli\<close>.
\<close>

definition measured_model ::
  "(session \<Rightarrow> string list \<Rightarrow> spectral_model) \<Rightarrow> (pyfloat \<Rightarrow> pyfloat) \<Rightarrow> session \<Rightarrow> transition
     \<Rightarrow> spectral_model" where
  "measured_model new_profile milli s t =
     (new_profile s [hash t])
       \<lparr>md_is_acceptable := Some True,
        md_fitted_result := Some
          \<lparr>fit_equivalent_width =
             Some (milli (case equivalent_width t of None \<Rightarrow> NaN | Some w \<Rightarrow> w), Fin 0, Fin 0),
           fit_abundances = None\<rparr>\<rparr>"

text \<open>
  \<open>LineListTableView.import_transitions_with_measured_equivalent_widths\<close>, statement by
  statement: merge the files; merge with the line list of the session when there is one
  (into the local \<open>line_list\<close>, the session still holds the old list), else store the
  imported list in the session; store the argsort of the hashes of the list the session
  holds at that moment; raise KeyError when the local list has no equivalent widths;
  store the local list in the session; add one measured model per row and recompute the
  conflicts.
\<close>

definition import_transitions_with_measured_equivalent_widths ::
  "(transition list \<Rightarrow> transition list \<Rightarrow> py_error + transition list)
     \<Rightarrow> (session \<Rightarrow> string list \<Rightarrow> spectral_model) \<Rightarrow> (pyfloat \<Rightarrow> pyfloat) \<Rightarrow> conflicts_fn
     \<Rightarrow> transition list list \<Rightarrow> session \<Rightarrow> session \<times> unit outcome" where
  "import_transitions_with_measured_equivalent_widths merge new_profile milli conflicts files s =
     (case files of
        [] \<Rightarrow> (s, Returned ())
      | first # rest \<Rightarrow>
          (case merge_all merge first rest of
             Inl err \<Rightarrow> (s, Raised err)
           | Inr imported \<Rightarrow>
               (case (case line_list s of
                        Some ll \<Rightarrow>
                          (case merge ll imported of
                             Inl err \<Rightarrow> Inl err
                           | Inr merged \<Rightarrow> Inr (merged, ll, s))
                      | None \<Rightarrow> Inr (imported, imported, s\<lparr>line_list := Some imported\<rparr>)) of
                  Inl err \<Rightarrow> (s, Raised err)
                | Inr (local_list, held_list, s1) \<Rightarrow>
                    let s2 = s1\<lparr>line_list_argsort_hashes := Some (hash_index held_list)\<rparr>
                    in if \<not> has_equivalent_width_column local_list then (s2, Raised KeyError)
                       else
                         let s3 = s2\<lparr>line_list := Some local_list\<rparr>;
                             to_add = map (measured_model new_profile milli s3) local_list;
                             ms = models_or_empty s3 @ to_add
                         in (s3\<lparr>spectral_models := Some ms,
                                spectral_model_conflicts := conflicts ms local_list\<rparr>,
                             Returned ()))))"

subsection \<open>The collaborators that the sources do not contain\<close>

text \<open>
  Modelled from the spec: \<open>spectral_model_conflicts\<close> (module \<open>smh.utils\<close>) is
  not among the sources. The spec's ConflictDetector builds an undirected graph over the
  model indices with an edge whenever two models share a transition hash, and returns the
  connected components of size two or more, ordered by their smallest index, each
  ordered by index.
\<close>

definition shares_hash :: "spectral_model \<Rightarrow> spectral_model \<Rightarrow> bool" where
  "shares_hash a b = list_ex (\<lambda>h. h \<in> set (transition_hashes b)) (transition_hashes a)"

definition grow_component :: "spectral_model list \<Rightarrow> nat list \<Rightarrow> nat list" where
  "grow_component ms members =
     filter (\<lambda>j. j \<in> set members \<or> list_ex (\<lambda>i. shares_hash (ms ! i) (ms ! j)) members)
       [0..<length ms]"

definition component_of :: "spectral_model list \<Rightarrow> nat \<Rightarrow> nat list" where
  "component_of ms i = (grow_component ms ^^ length ms) [i]"

definition conflict_groups :: conflicts_fn where
  "conflict_groups ms ll =
     filter (\<lambda>members. 2 \<le> length members)
       (map (component_of ms)
          (filter (\<lambda>i. list_all (\<lambda>j. i \<le> j) (component_of ms i)) [0..<length ms]))"

text \<open>
  Modelled from the spec: \<open>LineList.merge\<close> (module \<open>smh.linelists\<close>) is not among the
  sources. The spec's merge produces a new store; transitions with an identical hash are
  dropped when \<open>skip_exactly_equal\<close> is set; two transitions that share wavelength and
  species but differ elsewhere raise a conflict error unless \<open>ignore_conflicts\<close> is set.
\<close>

definition merge_spec ::
  "bool \<Rightarrow> bool \<Rightarrow> transition list \<Rightarrow> transition list \<Rightarrow> py_error + transition list" where
  "merge_spec skip_exactly_equal ignore_conflicts store other =
     (let incoming = (if skip_exactly_equal
                      then filter (\<lambda>t. hash t \<notin> set (map hash store)) other else other)
      in if \<not> ignore_conflicts
            \<and> list_ex (\<lambda>t. list_ex (\<lambda>u. wavelength t = wavelength u \<and> element t = element u
                                          \<and> t \<noteq> u) store) incoming
         then Inl ConflictError
         else Inr (store @ incoming))"

subsection \<open>What it means for the derived data to be current\<close>

text \<open>
  The hash index is current when it is the argsort of the hash column of the line list
  that the session holds; the conflict groups are current, for a given conflict
  function, when they are its value on the model list and the line list that the session
  holds.
\<close>

definition index_current :: "session \<Rightarrow> bool" where
  "index_current s =
     (case line_list s of
        None \<Rightarrow> True
      | Some ll \<Rightarrow> line_list_argsort_hashes s = Some (hash_index ll))"

definition conflicts_current :: "conflicts_fn \<Rightarrow> session \<Rightarrow> bool" where
  "conflicts_current conflicts s =
     (case line_list s of
        None \<Rightarrow> False
      | Some ll \<Rightarrow> spectral_model_conflicts s = conflicts (models_or_empty s) ll)"

subsection \<open>A small session to run the operations on\<close>

definition line_h1 :: transition where
  "line_h1 = \<lparr>hash = ''h1'', wavelength = Fin 5000, element = ''Fe I'', equivalent_width = None\<rparr>"

definition line_h2 :: transition where
  "line_h2 = \<lparr>hash = ''h2'', wavelength = Fin 5100, element = ''Fe I'', equivalent_width = None\<rparr>"

definition line_h3 :: transition where
  "line_h3 = \<lparr>hash = ''h3'', wavelength = Fin 5200, element = ''Ti II'', equivalent_width = None\<rparr>"

definition measured_h4 :: transition where
  "measured_h4 =
     \<lparr>hash = ''h4'', wavelength = Fin 5300, element = ''Fe I'', equivalent_width = Some (Fin 50)\<rparr>"

definition profile_on :: "string list \<Rightarrow> spectral_model" where
  "profile_on hashes =
     \<lparr>kind = ProfileFittingModel, transition_hashes = hashes, transition_indices = [],
      md_is_acceptable = None, md_fitted_result = None, md_mask = Some [],
      md_antimask_flag = Some False\<rparr>"

text \<open>
  The example of the spec: three transitions, a profile model on \<open>h1\<close> and one on
  \<open>h1, h2\<close>.
\<close>

definition three_lines :: session where
  "three_lines =
     \<lparr>line_list = Some [line_h1, line_h2, line_h3],
      spectral_models = Some [profile_on [''h1''], profile_on [''h1'', ''h2'']],
      line_list_argsort_hashes = Some [0, 1, 2],
      spectral_model_conflicts = []\<rparr>"

definition measured_h5 :: transition where
  "measured_h5 =
     \<lparr>hash = ''h5'', wavelength = Fin 5400, element = ''Fe I'', equivalent_width = Some (Fin 40)\<rparr>"

text \<open>A session that holds one pre-measured line, its hash index current, and no model.\<close>

definition one_line :: session where
  "one_line =
     \<lparr>line_list = Some [measured_h5], spectral_models = None,
      line_list_argsort_hashes = Some [0], spectral_model_conflicts = []\<rparr>"

text \<open>
  Stand-ins for the collaborators, to run the operations on concrete inputs: a float
  product with a positive constant that neither rounds nor overflows, a constructor of
  synthesis models, and the distinct elements of a list of transitions.
\<close>

fun scale_float :: "real \<Rightarrow> pyfloat \<Rightarrow> pyfloat" where
  "scale_float c (Fin r) = Fin (c * r)"
| "scale_float c x = x"

definition synthesis_on :: "string list \<Rightarrow> string list \<Rightarrow> spectral_model" where
  "synthesis_on hashes elements = (profile_on hashes)\<lparr>kind := SpectralSynthesisModel\<rparr>"

definition distinct_elements :: "transition list \<Rightarrow> string list" where
  "distinct_elements ts = remdups (map element ts)"

text \<open>A session import that loads one profile model on \<open>h3\<close>, and a user who picks nothing.\<close>

definition load_one_model :: "session \<Rightarrow> session \<times> nat" where
  "load_one_model s = (append_model (profile_on [''h3'']) s, 1)"

definition picks_nothing :: "transition list \<Rightarrow> string list" where
  "picks_nothing ts = []"

section \<open>Fitting all models\<close>

text \<open>
  Modelled from the spec: the method \<open>fit\<close> of the model classes is not among the
  sources. The spec has it overwrite the fit-result slot on success and, on failure,
  raise and leave the previous slot untouched. What a fit computes for a model is the
  parameter \<open>fit\<close>: a new fitted result or the exception it raises.
\<close>

datatype fit_result = FitOk fit_meta | FitRaises py_error

type_synonym fitter = "spectral_model \<Rightarrow> fit_result"

definition run_fit :: "fitter \<Rightarrow> spectral_model \<Rightarrow> py_error + spectral_model" where
  "run_fit fit m =
     (case fit m of
        FitOk r \<Rightarrow> Inr (m\<lparr>md_fitted_result := Some r\<rparr>)
      | FitRaises err \<Rightarrow> Inl err)"

text \<open>
  Modelled from the spec: the property \<open>is_acceptable\<close> of the model classes is not among
  the sources. It is the user-settable acceptability flag, kept in the metadata entry of
  that name (the import of measured lines writes it, the export strips it); a model
  without the entry is not acceptable.
\<close>

definition is_acceptable :: "spectral_model \<Rightarrow> bool" where
  "is_acceptable m = (md_is_acceptable m = Some True)"

text \<open>
  \<open>try: res = m.fit()  except (ValueError, RuntimeError) as e: logger.debug(...)\<close>.
  The two listed exception classes are logged and swallowed; any other exception leaves
  the \<open>try\<close> statement. The result is the model after the statement with the exceptions
  logged, or the exception that escapes.
\<close>

definition fit_logged :: "fitter \<Rightarrow> spectral_model \<Rightarrow> py_error + spectral_model \<times> py_error list" where
  "fit_logged fit m =
     (case run_fit fit m of
        Inr m' \<Rightarrow> Inr (m', [])
      | Inl err \<Rightarrow> if err = ValueError \<or> err = RuntimeError then Inr (m, [err]) else Inl err)"

text \<open>
  The body of both loops of \<open>fit_all\<close>: \<open>if isinstance(m, SpectralSynthesisModel): ...\<close>
  followed by \<open>if isinstance(m, ProfileFittingModel): ...\<close>.
\<close>

definition fit_by_class :: "fitter \<Rightarrow> spectral_model \<Rightarrow> py_error + spectral_model \<times> py_error list" where
  "fit_by_class fit m =
     (case (if kind m = SpectralSynthesisModel then fit_logged fit m else Inr (m, [])) of
        Inl err \<Rightarrow> Inl err
      | Inr (m1, log1) \<Rightarrow>
          (case (if kind m1 = ProfileFittingModel then fit_logged fit m1 else Inr (m1, [])) of
             Inl err \<Rightarrow> Inl err
           | Inr (m2, log2) \<Rightarrow> Inr (m2, log1 @ log2)))"

text \<open>
  The first loop: a model that is not acceptable is counted and skipped, every other
  model is fitted. The result is the model list as the loop leaves it (the models are
  mutated in place, so fits done before an escaping exception stay), the log, the
  counter \<open>num_unacceptable\<close>, and the exception that escaped, if any.
\<close>

fun fit_acceptable ::
  "fitter \<Rightarrow> spectral_model list \<Rightarrow> spectral_model list \<times> py_error list \<times> nat \<times> py_error option" where
  "fit_acceptable fit [] = ([], [], 0, None)"
| "fit_acceptable fit (m # ms) =
     (if \<not> is_acceptable m
      then (case fit_acceptable fit ms of
              (ms', logged, n, raised) \<Rightarrow> (m # ms', logged, n + 1, raised))
      else (case fit_by_class fit m of
              Inl err \<Rightarrow> (m # ms, [], 0, Some err)
            | Inr (m', log1) \<Rightarrow>
                (case fit_acceptable fit ms of
                   (ms', logged, n, raised) \<Rightarrow> (m' # ms', log1 @ logged, n, raised))))"

text \<open>The second loop fits every model.\<close>

fun fit_every ::
  "fitter \<Rightarrow> spectral_model list \<Rightarrow> spectral_model list \<times> py_error list \<times> py_error option" where
  "fit_every fit [] = ([], [], None)"
| "fit_every fit (m # ms) =
     (case fit_by_class fit m of
        Inl err \<Rightarrow> (m # ms, [], Some err)
      | Inr (m', log1) \<Rightarrow>
          (case fit_every fit ms of
             (ms', logged, raised) \<Rightarrow> (m' # ms', log1 @ logged, raised)))"

text \<open>
  \<open>ChemicalAbundancesTab.fit_all\<close> on the model list of the session (what
  \<open>self.all_spectral_models.spectral_models\<close> iterates; \<open>rowCount\<close> is its length). The
  result is the model list after the call, the logged exceptions, and whether the call
  returned or raised.
\<close>

definition fit_all ::
  "fitter \<Rightarrow> spectral_model list \<Rightarrow> spectral_model list \<times> py_error list \<times> unit outcome" where
  "fit_all fit ms =
     (case fit_acceptable fit ms of
        (ms1, log1, num_unacceptable, Some err) \<Rightarrow> (ms1, log1, Raised err)
      | (ms1, log1, num_unacceptable, None) \<Rightarrow>
          if num_unacceptable = length ms1
          then (case fit_every fit ms1 of
                  (ms2, log2, Some err) \<Rightarrow> (ms2, log1 @ log2, Raised err)
                | (ms2, log2, None) \<Rightarrow> (ms2, log1 @ log2, Returned ()))
          else (ms1, log1, Returned ()))"

text \<open>
  What the batch is meant to achieve, model by model: the subset to fit is the
  acceptable models, or all models when none is acceptable; a model of the subset ends
  with its new fitted result when its fit succeeds and unchanged when it fails.
\<close>

definition in_fit_subset :: "spectral_model list \<Rightarrow> spectral_model \<Rightarrow> bool" where
  "in_fit_subset ms m = (is_acceptable m \<or> \<not> list_ex is_acceptable ms)"

definition after_fit :: "fitter \<Rightarrow> spectral_model \<Rightarrow> spectral_model" where
  "after_fit fit m = (case fit m of FitOk r \<Rightarrow> m\<lparr>md_fitted_result := Some r\<rparr> | FitRaises err \<Rightarrow> m)"

definition fit_failure :: "fitter \<Rightarrow> spectral_model \<Rightarrow> py_error list" where
  "fit_failure fit m = (case fit m of FitOk r \<Rightarrow> [] | FitRaises err \<Rightarrow> [err])"

text \<open>A fit that fails on the models on \<open>h1\<close> with a given exception and succeeds elsewhere.\<close>

definition fails_on_h1 :: "py_error \<Rightarrow> fitter" where
  "fails_on_h1 err m =
     (if transition_hashes m = [''h1''] then FitRaises err
      else FitOk \<lparr>fit_equivalent_width = Some (Fin (1 / 20), Fin 0, Fin 0), fit_abundances = None\<rparr>)"

definition acceptable_on :: "string list \<Rightarrow> spectral_model" where
  "acceptable_on hashes = (profile_on hashes)\<lparr>md_is_acceptable := Some True\<rparr>"

section \<open>Measuring all abundances\<close>














section \<open>Exporting spectral models\<close>

text \<open>
  The export strips two entries from a copy of a model's state. Whether the model in the
  session is affected depends on what the copy shares with it, so here the metadata
  dicts are objects in a store: the store is the list of the dict objects, a reference
  is a position in it, and a model holds the reference of its metadata dict. The values
  in a dict are not inspected; their type is a parameter.
\<close>

type_synonym 'v dict_store = "(string \<rightharpoonup> 'v) list"

record model_object =
  obj_kind :: model_kind
  obj_transition_hashes :: "string list"
  obj_transition_indices :: "nat list"
  obj_metadata :: nat

record 'v object_session =
  dict_objects :: "'v dict_store"
  model_objects :: "model_object list"

text \<open>
  Modelled from the spec: \<open>__getstate__\<close> of the model classes is not among the sources.
  The exported state of a model is its type, its transition hashes and its metadata. The
  state refers to the model's own metadata dict, not to a copy of it: this is the case in
  which the \<open>deepcopy\<close> of the export matters.
\<close>

record model_state =
  state_type :: model_kind
  state_transition_hashes :: "string list"
  state_metadata :: nat

definition getstate :: "model_object \<Rightarrow> model_state" where
  "getstate m =
     \<lparr>state_type = obj_kind m, state_transition_hashes = obj_transition_hashes m,
      state_metadata = obj_metadata m\<rparr>"

text \<open>
  \<open>deepcopy(state)\<close>: a new dict object with the same entries is allocated at the end of
  the store and the copied state refers to it. The entries themselves are values here,
  so copying them is the identity.
\<close>

definition deepcopy_state :: "'v dict_store \<Rightarrow> model_state \<Rightarrow> 'v dict_store \<times> model_state" where
  "deepcopy_state store st =
     (store @ [store ! state_metadata st], st\<lparr>state_metadata := length store\<rparr>)"

text \<open>\<open>state["metadata"].pop(key, None)\<close>: the entry is removed from the dict object.\<close>

definition dict_pop :: "'v dict_store \<Rightarrow> nat \<Rightarrow> string \<Rightarrow> 'v dict_store" where
  "dict_pop store ref key = store[ref := (store ! ref)(key := None)]"

text \<open>
  Modelled from the spec: \<open>index_transitions\<close> of the model classes is not among the
  sources. A model holds its transitions by hash and resolves them through the line
  list; the method stores the resolved positions in \<open>_transition_indices\<close> and touches
  nothing else of the model. How the hashes are resolved is the parameter \<open>resolve\<close>,
  which returns the positions or raises.
\<close>

type_synonym resolver = "transition list \<Rightarrow> string list \<Rightarrow> py_error + nat list"

text \<open>
  The body of the loop of \<open>export_selected_spectral_models\<close> and of \<open>save_as_default\<close> for
  the model at one position: re-index the model, copy its state, pop \<open>fitted_result\<close>
  and \<open>is_acceptable\<close> from the copy. It yields the stripped state and the model's
  transition indices.
\<close>

definition export_one ::
  "resolver \<Rightarrow> transition list \<Rightarrow> 'v object_session \<Rightarrow> nat
     \<Rightarrow> 'v object_session \<times> (model_state \<times> nat list) outcome" where
  "export_one resolve ll s row =
     (if length (model_objects s) \<le> row then (s, Raised IndexError)
      else
        let m = model_objects s ! row
        in case resolve ll (obj_transition_hashes m) of
             Inl err \<Rightarrow> (s, Raised err)
           | Inr positions \<Rightarrow>
               (let m1 = m\<lparr>obj_transition_indices := positions\<rparr>;
                    s1 = s\<lparr>model_objects := (model_objects s)[row := m1]\<rparr>
                in case deepcopy_state (dict_objects s1) (getstate m1) of
                     (store2, state) \<Rightarrow>
                       (let store3 = dict_pop store2 (state_metadata state) ''fitted_result'';
                            store4 = dict_pop store3 (state_metadata state) ''is_acceptable''
                        in (s1\<lparr>dict_objects := store4\<rparr>,
                            Returned (state, obj_transition_indices m1)))))"

fun export_states ::
  "resolver \<Rightarrow> transition list \<Rightarrow> nat list \<Rightarrow> 'v object_session
     \<Rightarrow> 'v object_session \<times> (model_state list \<times> nat list) outcome" where
  "export_states resolve ll [] s = (s, Returned ([], []))"
| "export_states resolve ll (row # rows) s =
     (case export_one resolve ll s row of
        (s1, Raised err) \<Rightarrow> (s1, Raised err)
      | (s1, Returned (state, positions)) \<Rightarrow>
          (case export_states resolve ll rows s1 of
             (s2, Raised err) \<Rightarrow> (s2, Raised err)
           | (s2, Returned (states, transition_positions)) \<Rightarrow>
               (s2, Returned (state # states, positions @ transition_positions))))"

text \<open>
  What is written to the file: a state with the entries of its metadata dict, as
  serialisation reads them from the store.
\<close>

record 'v exported_state =
  exported_type :: model_kind
  exported_transition_hashes :: "string list"
  exported_metadata :: "string \<rightharpoonup> 'v"

definition serialize :: "'v dict_store \<Rightarrow> model_state \<Rightarrow> 'v exported_state" where
  "serialize store st =
     \<lparr>exported_type = state_type st, exported_transition_hashes = state_transition_hashes st,
      exported_metadata = store ! state_metadata st\<rparr>"

text \<open>
  \<open>SpectralModelsTableView.export_selected_spectral_models\<close> for a chosen path: the
  selected models are exported, the rows of the line list at their transition indices
  are collected (IndexError past the end of the line list), and the pair is pickled.
  The result is the session after the call and the pair written.
\<close>

definition export_selected_spectral_models ::
  "resolver \<Rightarrow> transition list \<Rightarrow> nat list \<Rightarrow> 'v object_session
     \<Rightarrow> 'v object_session \<times> (transition list \<times> 'v exported_state list) outcome" where
  "export_selected_spectral_models resolve ll rows s =
     (case export_states resolve ll rows s of
        (s1, Raised err) \<Rightarrow> (s1, Raised err)
      | (s1, Returned (states, transition_positions)) \<Rightarrow>
          if list_ex (\<lambda>j. length ll \<le> j) transition_positions then (s1, Raised IndexError)
          else (s1, Returned (map (\<lambda>j. ll ! j) transition_positions,
                              map (serialize (dict_objects s1)) states)))"

text \<open>
  \<open>TransitionsDialog.save_as_default\<close>: every model of the session is exported in the
  same way; in addition each hash of a state is replaced by \<open>"{}".format(hash)\<close>, which
  for a string is the string itself. The result is the list of states stored as the
  default setting.
\<close>

definition format_hash :: "string \<Rightarrow> string" where
  "format_hash h = h"

definition save_as_default ::
  "resolver \<Rightarrow> transition list \<Rightarrow> 'v object_session
     \<Rightarrow> 'v object_session \<times> 'v exported_state list outcome" where
  "save_as_default resolve ll s =
     (case export_states resolve ll [0..<length (model_objects s)] s of
        (s1, Raised err) \<Rightarrow> (s1, Raised err)
      | (s1, Returned (states, transition_positions)) \<Rightarrow>
          (s1, Returned
             (map (\<lambda>st. serialize (dict_objects s1)
                           (st\<lparr>state_transition_hashes :=
                                 map format_hash (state_transition_hashes st)\<rparr>))
                  states)))"

text \<open>
  The metadata of a model without its two transient entries, and the well-formedness of
  a session: every model refers to a dict object of the store.
\<close>

definition strip_transient :: "(string \<rightharpoonup> 'v) \<Rightarrow> (string \<rightharpoonup> 'v)" where
  "strip_transient md = md(''fitted_result'' := None, ''is_acceptable'' := None)"

definition refs_valid :: "'v object_session \<Rightarrow> bool" where
  "refs_valid s = list_all (\<lambda>m. obj_metadata m < length (dict_objects s)) (model_objects s)"

text \<open>A session of two model objects with string-valued metadata, and a resolver.\<close>

definition hash_positions :: resolver where
  "hash_positions ll hashes =
     Inr (concat (map (\<lambda>h. filter (\<lambda>i. hash (ll ! i) = h) [0..<length ll]) hashes))"

definition two_objects :: "string object_session" where
  "two_objects =
     \<lparr>dict_objects =
        [[''window'' \<mapsto> ''5'', ''fitted_result'' \<mapsto> ''p_opt'', ''is_acceptable'' \<mapsto> ''True''],
         [''window'' \<mapsto> ''10'', ''mask'' \<mapsto> ''[]'']],
      model_objects =
        [\<lparr>obj_kind = ProfileFittingModel, obj_transition_hashes = [''h2''],
          obj_transition_indices = [], obj_metadata = 0\<rparr>,
         \<lparr>obj_kind = SpectralSynthesisModel, obj_transition_hashes = [''h1'', ''h3''],
          obj_transition_indices = [0, 1], obj_metadata = 1\<rparr>]\<rparr>"

text \<open>
  The two halves of what the export promises. The exported states are stripped copies of
  the selected models: one state per selected row, with the model's type and hashes,
  without the entries \<open>fitted_result\<close> and \<open>is_acceptable\<close>, and with every other
  metadata entry as the model has it. The session is kept: every dict object that
  existed before the call has the entries it had, and every model has the state it had.
\<close>

definition stripped_copies ::
  "'v object_session \<Rightarrow> nat list \<Rightarrow> 'v exported_state list \<Rightarrow> bool" where
  "stripped_copies s rows exported =
     (length exported = length rows
      \<and> (\<forall>k < length rows.
            exported_type (exported ! k) = obj_kind (model_objects s ! (rows ! k))
          \<and> exported_transition_hashes (exported ! k)
               = obj_transition_hashes (model_objects s ! (rows ! k))
          \<and> exported_metadata (exported ! k) ''fitted_result'' = None
          \<and> exported_metadata (exported ! k) ''is_acceptable'' = None
          \<and> (\<forall>key. key \<noteq> ''fitted_result'' \<and> key \<noteq> ''is_acceptable'' \<longrightarrow>
                 exported_metadata (exported ! k) key
                   = (dict_objects s ! obj_metadata (model_objects s ! (rows ! k))) key)))"

definition session_kept :: "'v object_session \<Rightarrow> 'v object_session \<Rightarrow> bool" where
  "session_kept s s' =
     (take (length (dict_objects s)) (dict_objects s') = dict_objects s
      \<and> map getstate (model_objects s') = map getstate (model_objects s))"

section \<open>Masking a region in the spectrum display\<close>

text \<open>
  The widget \<open>SMHSpecDisplay\<close>: the spectral models of the session (objects that the
  handlers mutate in place), \<open>self.selected_model\<close> as the position of the selected model
  (\<open>None\<close> when nothing is selected), \<open>self._interactive_mask_region_signal\<close>, and the
  two abscissae of the interactive mask patch, \<open>xy[0, 0]\<close> and \<open>xy[2, 0]\<close>. The signal
  attribute is \<open>None\<close> after \<open>__init__\<close>, a pair that starts with the time of the press
  while a drag is under way, and deleted after a release.
\<close>

datatype drag_signal = SignalNone | SignalDeleted | SignalSet real

record spec_display =
  shown_models :: "spectral_model list"
  selected_model :: "nat option"
  mask_signal :: drag_signal
  patch_x0 :: pyfloat
  patch_x2 :: pyfloat

text \<open>
  A mouse event of matplotlib: the button, whether \<open>event.inaxes\<close> is one of the two axes
  of the widget, whether it is a double click, and \<open>event.xdata\<close>.
\<close>

record mouse_event =
  button :: nat
  inaxes :: bool
  dblclick :: bool
  xdata :: "pyfloat option"

definition DOUBLE_CLICK_INTERVAL :: real where
  "DOUBLE_CLICK_INTERVAL = 1 / 10"

text \<open>
  \<open>self.update_selected_model()\<close>: the selection is read from the parent widget;
  \<open>parent_selection\<close> is what \<open>parent._get_selected_model()\<close> returns at that moment, a
  model of the session or \<open>None\<close>.
\<close>

definition update_selected_model :: "nat option \<Rightarrow> spec_display \<Rightarrow> spec_display" where
  "update_selected_model parent_selection d =
     d\<lparr>selected_model :=
         (case parent_selection of
            None \<Rightarrow> None
          | Some i \<Rightarrow> if i < length (shown_models d) then Some i else None)\<rparr>"

text \<open>The model object that \<open>self.selected_model\<close> refers to, if any.\<close>

definition selected_object :: "spec_display \<Rightarrow> (nat \<times> spectral_model) option" where
  "selected_object d =
     (case selected_model d of
        None \<Rightarrow> None
      | Some i \<Rightarrow> if i < length (shown_models d) then Some (i, shown_models d ! i) else None)"

text \<open>
  \<open>SMHSpecDisplay.update_spectrum_figure\<close>, as far as the state goes: it updates the
  selection and returns when nothing is selected; otherwise its next statement reads
  \<open>selected_model.transitions\<close>, and \<open>selected_model\<close> is not bound in that function or in
  the module.
\<close>

definition update_spectrum_figure :: "nat option \<Rightarrow> spec_display \<Rightarrow> spec_display \<times> unit outcome" where
  "update_spectrum_figure parent_selection d =
     (let d1 = update_selected_model parent_selection d
      in case selected_model d1 of
           None \<Rightarrow> (d1, Returned ())
         | Some i \<Rightarrow> (d1, Raised NameError))"

text \<open>
  The names that the module \<open>smh/gui/base.py\<close> binds: its imports, its constants and its
  classes. The handlers below read the names \<open>np\<close> and \<open>time\<close>; where a handler evaluates
  such a name, the name is looked up in this scope, and a name that the module does not
  bind raises \<open>NameError\<close> there, after everything the handler has done before.
  (No handler reads the loop variable \<open>fmt\<close> of the comprehension that rebuilds
  \<open>_formats\<close>; whether it stays bound depends on the version of Python, and it is left out.)
\<close>

definition base_py_globals :: "string \<rightharpoonup> unit" where
  "base_py_globals =
     map_of (map (\<lambda>name. (name, ()))
       [''division'', ''print_function'', ''absolute_import'', ''unicode_literals'',
        ''sys'', ''logging'', ''os'', ''QtCore'', ''QtGui'', ''mpl'',
        ''DOUBLE_CLICK_INTERVAL'', ''PICKER_TOLERANCE'',
        ''_allattrs'', ''_labels'', ''_short_labels'', ''_formats'',
        ''_attr2label'', ''_attr2slabel'', ''_attr2format'',
        ''SMHWidgetBase'', ''SMHSpecDisplay'', ''SMHScatterplot'', ''SMHFittingOptions'',
        ''SMHMeasurementList'', ''MeasurementTableModelBase''])"

text \<open>
  \<open>SMHSpecDisplay.spectrum_left_mouse_press\<close>. \<open>shift\<close> is \<open>self.shift_key_pressed\<close> and
  \<open>now\<close> is what \<open>time.time()\<close> would return. The result is the widget after the call and
  whether the call returned or raised: what the handler has written before an exception
  stays written.

  A double click calls \<open>_remove_mask\<close>, and only when that returns true refits and redraws.
  A single click compares the antimask flag of the selected model with the shift key:
  when they differ it replaces the mask list by the empty list and inverts the flag.
  The next statement evaluates \<open>np.nan\<close> to place the interactive patch at the click, and
  the last one evaluates \<open>time.time()\<close> to store the signal.
\<close>

definition spectrum_left_mouse_press ::
  "fitter \<Rightarrow> mouse_event \<Rightarrow> bool \<Rightarrow> nat option \<Rightarrow> real \<Rightarrow> spec_display
     \<Rightarrow> spec_display \<times> unit outcome" where
  "spectrum_left_mouse_press fit event shift parent_selection now d =
     (if button event \<noteq> 1 then (d, Returned ())
      else if \<not> inaxes event then (d, Returned ())
      else
        let d1 = update_selected_model parent_selection d;
            x = (case xdata event of None \<Rightarrow> NaN | Some v \<Rightarrow> v)
        in if dblclick event
           then (case remove_mask
                        (case selected_object d1 of
                           None \<Rightarrow> []
                         | Some (i, m) \<Rightarrow> (case md_mask m of None \<Rightarrow> [] | Some ms \<Rightarrow> ms)) x of
                   Inl err \<Rightarrow> (d1, Raised err)
                 | Inr (mask_removed, mask_left) \<Rightarrow>
                     (case selected_object d1 of
                        None \<Rightarrow> (d1, Returned ())
                      | Some (i, m) \<Rightarrow>
                          if \<not> mask_removed then (d1, Returned ())
                          else (case run_fit fit (m\<lparr>md_mask := Some mask_left\<rparr>) of
                                  Inl err \<Rightarrow>
                                    (d1\<lparr>shown_models :=
                                          (shown_models d1)[i := m\<lparr>md_mask := Some mask_left\<rparr>]\<rparr>,
                                     Raised err)
                                | Inr m' \<Rightarrow>
                                    update_spectrum_figure parent_selection
                                      (d1\<lparr>shown_models := (shown_models d1)[i := m']\<rparr>))))
           else (case selected_object d1 of
                   None \<Rightarrow> (d1, Raised AttributeError)
                 | Some (i, m) \<Rightarrow>
                     (case md_antimask_flag m of
                        None \<Rightarrow> (d1, Raised KeyError)
                      | Some flag \<Rightarrow>
                          let m1 = (if flag \<noteq> shift
                                    then m\<lparr>md_mask := Some [], md_antimask_flag := Some (\<not> flag)\<rparr>
                                    else m);
                              d2 = d1\<lparr>shown_models := (shown_models d1)[i := m1]\<rparr>
                          in (case lookup_name base_py_globals ''np'' of
                                Inl err \<Rightarrow> (d2, Raised err)
                              | Inr numpy \<Rightarrow>
                                  (let d3 = d2\<lparr>patch_x0 := x, patch_x2 := NaN\<rparr>
                                   in case lookup_name base_py_globals ''time'' of
                                        Inl err \<Rightarrow> (d3, Raised err)
                                      | Inr time_module \<Rightarrow>
                                          (d3\<lparr>mask_signal := SignalSet now\<rparr>, Returned ()))))))"

text \<open>
  \<open>SMHSpecDisplay.update_mask_region\<close>, the motion callback: once the double-click
  interval has passed, the far edge of the patch follows the mouse. Unpacking the signal
  raises TypeError when it is \<open>None\<close> and AttributeError when it has been deleted; the
  test of the interval evaluates \<open>time.time()\<close>.
\<close>

definition update_mask_region ::
  "mouse_event \<Rightarrow> real \<Rightarrow> spec_display \<Rightarrow> spec_display \<times> unit outcome" where
  "update_mask_region event now d =
     (case xdata event of
        None \<Rightarrow> (d, Returned ())
      | Some x \<Rightarrow>
          (case mask_signal d of
             SignalNone \<Rightarrow> (d, Raised TypeError)
           | SignalDeleted \<Rightarrow> (d, Raised AttributeError)
           | SignalSet signal_time \<Rightarrow>
               (case lookup_name base_py_globals ''time'' of
                  Inl err \<Rightarrow> (d, Raised err)
                | Inr time_module \<Rightarrow>
                    if now - signal_time > DOUBLE_CLICK_INTERVAL
                    then (d\<lparr>patch_x2 := x\<rparr>, Returned ())
                    else (d, Returned ()))))"

text \<open>
  \<open>np.abs(a - b) > 0\<close> on floats: false when either is NaN or both are the same infinity
  (the difference is NaN), true for two different finite numbers and whenever exactly
  one is infinite. Python's \<open>min(a, b)\<close> and \<open>max(a, b)\<close> return \<open>b\<close> only when it compares
  strictly below, respectively above, \<open>a\<close>.
\<close>

fun abs_difference_positive :: "pyfloat \<Rightarrow> pyfloat \<Rightarrow> bool" where
  "abs_difference_positive NaN _ = False"
| "abs_difference_positive _ NaN = False"
| "abs_difference_positive (Fin a) (Fin b) = (a \<noteq> b)"
| "abs_difference_positive PosInf PosInf = False"
| "abs_difference_positive NegInf NegInf = False"
| "abs_difference_positive _ _ = True"

definition py_min :: "pyfloat \<Rightarrow> pyfloat \<Rightarrow> pyfloat" where
  "py_min a b = (if float_lt b a then b else a)"

definition py_max :: "pyfloat \<Rightarrow> pyfloat \<Rightarrow> pyfloat" where
  "py_max a b = (if float_lt a b then b else a)"

text \<open>
  \<open>SMHSpecDisplay.spectrum_left_mouse_release\<close>. A deleted signal returns at once (the
  AttributeError is caught); a signal that is \<open>None\<close> cannot be unpacked. The test
  \<open>time.time() - signal_time > DOUBLE_CLICK_INTERVAL and np.abs(xy[0,0] - xdata) > 0\<close>
  evaluates \<open>time\<close> first and \<open>np\<close> only when its first half holds. When the press was long
  enough ago and the mouse has moved, the interval between the two edges of the patch is
  appended to the mask list of the selected model and the model is refitted (the other
  widgets that are then notified are outside this model). Then the patch is reset, which
  evaluates \<open>np.nan\<close>, the signal is deleted and the figure updated. The body of the
  \<open>if\<close> is \<open>release_append\<close> and the statements after it are \<open>release_cleanup\<close>.
\<close>

definition release_cleanup :: "nat option \<Rightarrow> spec_display \<Rightarrow> spec_display \<times> unit outcome" where
  "release_cleanup parent_selection d =
     (case lookup_name base_py_globals ''np'' of
        Inl err \<Rightarrow> (d, Raised err)
      | Inr numpy \<Rightarrow>
          update_spectrum_figure parent_selection
            (d\<lparr>patch_x0 := NaN, patch_x2 := NaN, mask_signal := SignalDeleted\<rparr>))"

definition release_append ::
  "fitter \<Rightarrow> nat option \<Rightarrow> spec_display \<Rightarrow> spec_display \<times> unit outcome" where
  "release_append fit parent_selection d =
     (case selected_object d of
        None \<Rightarrow> (d, Raised RuntimeError)
      | Some (i, m) \<Rightarrow>
          (case md_mask m of
             None \<Rightarrow> (d, Raised KeyError)
           | Some ms \<Rightarrow>
               let m1 = m\<lparr>md_mask := Some (ms @ [(py_min (patch_x0 d) (patch_x2 d),
                                                   py_max (patch_x0 d) (patch_x2 d))])\<rparr>
               in (case run_fit fit m1 of
                     Inl err \<Rightarrow> (d\<lparr>shown_models := (shown_models d)[i := m1]\<rparr>, Raised err)
                   | Inr m2 \<Rightarrow>
                       release_cleanup parent_selection
                         (d\<lparr>shown_models := (shown_models d)[i := m2]\<rparr>))))"

definition spectrum_left_mouse_release ::
  "fitter \<Rightarrow> mouse_event \<Rightarrow> nat option \<Rightarrow> real \<Rightarrow> spec_display \<Rightarrow> spec_display \<times> unit outcome" where
  "spectrum_left_mouse_release fit event parent_selection now d =
     (case mask_signal d of
        SignalDeleted \<Rightarrow> (d, Returned ())
      | SignalNone \<Rightarrow> (d, Raised TypeError)
      | SignalSet signal_time \<Rightarrow>
          let x = (case xdata event of None \<Rightarrow> patch_x2 d | Some v \<Rightarrow> v)
          in (case lookup_name base_py_globals ''time'' of
                Inl err \<Rightarrow> (d, Raised err)
              | Inr time_module \<Rightarrow>
                  if now - signal_time > DOUBLE_CLICK_INTERVAL
                  then (case lookup_name base_py_globals ''np'' of
                          Inl err \<Rightarrow> (d, Raised err)
                        | Inr numpy \<Rightarrow>
                            if abs_difference_positive (patch_x0 d) x
                            then release_append fit parent_selection d
                            else release_cleanup parent_selection d)
                  else release_cleanup parent_selection d))"

text \<open>
  The events that reach the widget, with what the environment supplies to each handler,
  and the widget after an event, whether the handler returned or raised.
\<close>

datatype ui_event =
    Press mouse_event bool "nat option" real
  | Motion mouse_event real
  | Release mouse_event "nat option" real

fun after_event :: "fitter \<Rightarrow> ui_event \<Rightarrow> spec_display \<Rightarrow> spec_display" where
  "after_event fit (Press event shift parent_selection now) d =
     fst (spectrum_left_mouse_press fit event shift parent_selection now d)"
| "after_event fit (Motion event now) d = fst (update_mask_region event now d)"
| "after_event fit (Release event parent_selection now) d =
     fst (spectrum_left_mouse_release fit event parent_selection now d)"

text \<open>
  To speak of the mode in which an interval was created, the run of the widget is
  observed from outside: next to each model a list records, for each interval of its
  mask list, whether the model was in antimask mode when the interval entered the list.
  The record is not part of the program. It is updated from what an event did to a
  model's mask list: nothing, emptied it, or appended one interval.
\<close>

definition mask_of :: "spectral_model \<Rightarrow> interval list" where
  "mask_of m = (case md_mask m of None \<Rightarrow> [] | Some ms \<Rightarrow> ms)"

definition antimask_mode :: "spectral_model \<Rightarrow> bool" where
  "antimask_mode m = (md_antimask_flag m = Some True)"

definition track_modes :: "spectral_model \<Rightarrow> spectral_model \<Rightarrow> bool list \<Rightarrow> bool list" where
  "track_modes before after modes =
     (if mask_of after = mask_of before then modes
      else if mask_of after = [] then []
      else if butlast (mask_of after) = mask_of before then modes @ [antimask_mode after]
      else modes)"

definition observed_event ::
  "fitter \<Rightarrow> ui_event \<Rightarrow> spec_display \<times> bool list list \<Rightarrow> spec_display \<times> bool list list" where
  "observed_event fit event observed =
     (case observed of (d, modes) \<Rightarrow>
        let d' = after_event fit event d
        in (d', map (\<lambda>((before, after), ms). track_modes before after ms)
                  (zip (zip (shown_models d) (shown_models d')) modes)))"

fun observed_run ::
  "fitter \<Rightarrow> ui_event list \<Rightarrow> spec_display \<times> bool list list \<Rightarrow> spec_display \<times> bool list list" where
  "observed_run fit [] observed = observed"
| "observed_run fit (event # events) observed =
     observed_run fit events (observed_event fit event observed)"

text \<open>
  The record is consistent with the widget when it has one list per model, one entry
  per interval, and every entry is the current antimask mode of the model: no model
  holds intervals created in both modes.
\<close>

definition one_mode :: "spec_display \<times> bool list list \<Rightarrow> bool" where
  "one_mode observed =
     (case observed of (d, modes) \<Rightarrow>
        length modes = length (shown_models d)
        \<and> list_all (\<lambda>(m, ms). length ms = length (mask_of m)
                              \<and> list_all (\<lambda>b. b = antimask_mode m) ms)
            (zip (shown_models d) modes))"

text \<open>A widget that shows one model with an empty mask list, and a fit that succeeds.\<close>

definition fresh_display :: spec_display where
  "fresh_display =
     \<lparr>shown_models = [profile_on [''h1'']], selected_model = None,
      mask_signal = SignalNone, patch_x0 = NaN, patch_x2 = NaN\<rparr>"

definition left_click :: "real \<Rightarrow> mouse_event" where
  "left_click x = \<lparr>button = 1, inaxes = True, dblclick = False, xdata = Some (Fin x)\<rparr>"

definition fit_succeeds :: fitter where
  "fit_succeeds m = FitOk \<lparr>fit_equivalent_width = Some (Fin (1 / 20), Fin 0, Fin 0),
                           fit_abundances = None\<rparr>"

text \<open>
  What one event may do to the mask list and the mode of a model: leave both, empty the
  list, or append one interval without changing the mode.
\<close>

definition mask_step :: "spectral_model \<Rightarrow> spectral_model \<Rightarrow> bool" where
  "mask_step before after =
     ((mask_of after = mask_of before \<and> antimask_mode after = antimask_mode before)
      \<or> mask_of after = []
      \<or> (butlast (mask_of after) = mask_of before \<and> mask_of after \<noteq> []
          \<and> antimask_mode after = antimask_mode before))"

definition models_step :: "spec_display \<Rightarrow> spec_display \<Rightarrow> bool" where
  "models_step d d' =
     (length (shown_models d') = length (shown_models d)
      \<and> (\<forall>j < length (shown_models d). mask_step (shown_models d ! j) (shown_models d' ! j)))"

text \<open>
  A model in mask mode that holds one interval, two drags (the second with the shift key
  held) and the widget that shows the model.
\<close>

definition masked_display :: spec_display where
  "masked_display =
     fresh_display\<lparr>shown_models := [(profile_on [''h1''])\<lparr>md_mask := Some [(Fin 1, Fin 2)]\<rparr>]\<rparr>"

definition two_drags :: "ui_event list" where
  "two_drags =
     [Press (left_click 5000) False (Some 0) 10, Motion (left_click 5001) 11,
      Release (left_click 5001) (Some 0) 12,
      Press (left_click 5002) True (Some 0) 20, Motion (left_click 5003) 21,
      Release (left_click 5003) (Some 0) 22]"

section \<open>Theorems: removing a mask\<close>

lemma first_containing_Some:
  "first_containing xs x n = Some i \<Longrightarrow>
     n \<le> i \<and> i - n < length xs \<and> interval_contains (xs ! (i - n)) x
     \<and> (\<forall>k < i - n. \<not> interval_contains (xs ! k) x)"
proof (induction xs arbitrary: n)
  case Nil
  then show ?case by simp
next
  case (Cons iv rest)
  obtain s e where iv: "iv = (s, e)" by (cases iv)
  show ?case
  proof (cases "float_ge e x \<and> float_ge x s")
    case True
    with Cons.prems iv show ?thesis by (simp add: interval_contains_def)
  next
    case False
    with Cons.prems iv have rec: "first_containing rest x (Suc n) = Some i" by simp
    from Cons.IH [OF rec] have ih: "Suc n \<le> i" "i - Suc n < length rest"
      "interval_contains (rest ! (i - Suc n)) x"
      "\<forall>k < i - Suc n. \<not> interval_contains (rest ! k) x" by auto
    from ih(1) have eq: "i - n = Suc (i - Suc n)" by simp
    have "\<forall>k < i - n. \<not> interval_contains ((iv # rest) ! k) x"
    proof (intro allI impI)
      fix k assume k: "k < i - n"
      show "\<not> interval_contains ((iv # rest) ! k) x"
      proof (cases k)
        case 0
        with False iv show ?thesis by (simp add: interval_contains_def)
      next
        case (Suc k')
        with k eq ih(4) show ?thesis by simp
      qed
    qed
    with ih eq show ?thesis by simp
  qed
qed

lemma first_containing_None:
  "(first_containing xs x n = None) = (\<forall>iv \<in> set xs. \<not> interval_contains iv x)"
proof (induction xs arbitrary: n)
  case Nil
  then show ?case by simp
next
  case (Cons iv rest)
  obtain s e where iv: "iv = (s, e)" by (cases iv)
  from Cons.IH [of "Suc n"] iv show ?case by (simp add: interval_contains_def)
qed

text \<open>
  The loop that both widgets share does what is asked of it: when it reports a hit, the
  interval it deleted is the last one in the list (the most recently appended one) that
  contains the wavelength, and nothing else changed.
\<close>

lemma remove_mask_loop_found:
  assumes "remove_mask_loop ms x = (True, ms')"
  shows "\<exists>j < length ms. interval_contains (ms ! j) x
           \<and> (\<forall>k. j < k \<and> k < length ms \<longrightarrow> \<not> interval_contains (ms ! k) x)
           \<and> ms' = del_at j ms"
proof -
  from assms obtain i where fc: "first_containing (rev ms) x 0 = Some i"
    and ms': "ms' = del_at (length ms - 1 - i) ms"
    by (auto simp: remove_mask_loop_def split: option.splits)
  from first_containing_Some [OF fc] have i: "i < length ms"
    and hit: "interval_contains (rev ms ! i) x"
    and before: "\<forall>k < i. \<not> interval_contains (rev ms ! k) x" by auto
  let ?j = "length ms - 1 - i"
  from i have j: "?j < length ms" by simp
  from i hit have hitj: "interval_contains (ms ! ?j) x" by (simp add: rev_nth)
  have "\<forall>k. ?j < k \<and> k < length ms \<longrightarrow> \<not> interval_contains (ms ! k) x"
  proof (intro allI impI)
    fix k assume k: "?j < k \<and> k < length ms"
    then have lt: "length ms - 1 - k < i" by arith
    with i have "length ms - 1 - k < length ms" by simp
    then have "rev ms ! (length ms - 1 - k) = ms ! (length ms - Suc (length ms - 1 - k))"
      by (rule rev_nth)
    moreover from k have "length ms - Suc (length ms - 1 - k) = k" by arith
    ultimately show "\<not> interval_contains (ms ! k) x" using before lt by auto
  qed
  with j hitj ms' show ?thesis by blast
qed

lemma remove_mask_loop_hit_iff:
  "fst (remove_mask_loop ms x) = (\<exists>iv \<in> set ms. interval_contains iv x)"
  using first_containing_None [of "rev ms" x 0]
  by (auto simp: remove_mask_loop_def split: option.splits)

lemma remove_mask_loop_not_found:
  "\<not> fst (remove_mask_loop ms x) \<Longrightarrow> remove_mask_loop ms x = (False, ms)"
  by (auto simp: remove_mask_loop_def split: option.splits)

text \<open>
  So the double-click branch of \<open>ChemicalAbundancesTab.spectrum_axis_mouse_press\<close> removes
  the most recently added interval that contains the wavelength, or changes nothing.
\<close>

lemma dblclick_remove_mask_found:
  "dblclick_remove_mask ms x = (True, ms') \<Longrightarrow>
     \<exists>j < length ms. interval_contains (ms ! j) x
        \<and> (\<forall>k. j < k \<and> k < length ms \<longrightarrow> \<not> interval_contains (ms ! k) x)
        \<and> ms' = del_at j ms"
  unfolding dblclick_remove_mask_def by (rule remove_mask_loop_found)

lemma dblclick_remove_mask_none:
  "(\<forall>iv \<in> set ms. \<not> interval_contains iv x) \<Longrightarrow> dblclick_remove_mask ms x = (False, ms)"
  unfolding dblclick_remove_mask_def
  using remove_mask_loop_hit_iff [of ms x] remove_mask_loop_not_found [of ms x] by simp

lemma remove_mask_always_raises: "remove_mask ms x = Inl NameError"
  by (simp add: remove_mask_def remove_mask_body_def lookup_name_def)

text \<open>
  Claim C6. Removing the mask interval that contains a wavelength searches from the most
  recently added interval, deletes the first one found and returns true, or returns false
  and leaves the list alone. \<open>SMHSpecDisplay._remove_mask\<close> does not do that: called on a
  model whose only mask interval is \<open>[1, 2]\<close> with the wavelength \<open>1.5\<close>, it raises
  \<open>NameError\<close> (its body reads the unbound name \<open>spectral_model\<close>), where the claim has it
  delete the interval and return true, as the same loop does in
  \<open>ChemicalAbundancesTab.spectrum_axis_mouse_press\<close>.
\<close>

theorem C6_remove_mask_raises_NameError:
  "remove_mask [(Fin 1, Fin 2)] (Fin (3 / 2)) = Inl NameError
   \<and> dblclick_remove_mask [(Fin 1, Fin 2)] (Fin (3 / 2)) = (True, [])"
  by (simp add: remove_mask_def remove_mask_body_def lookup_name_def
      dblclick_remove_mask_def remove_mask_loop_def del_at_def)

section \<open>Theorems: bounds of the Balmer-line fit parameters\<close>

lemma setdefault_bounds_present:
  "b p = Some lu \<Longrightarrow> setdefault_bounds b p = b"
  by (simp add: setdefault_bounds_def)

lemma bounds_view_setdefault:
  "bounds_view (setdefault_bounds b p) q = bounds_view b q"
  by (simp add: setdefault_bounds_def bounds_view_def split: option.splits)

lemma bounds_view_Some_upper:
  "snd (bounds_view b p) = Some u \<Longrightarrow> \<exists>l. b p = Some (l, Some u)"
  by (auto simp: bounds_view_def split: option.splits)

lemma bounds_view_Some_lower:
  "fst (bounds_view b p) = Some l \<Longrightarrow> \<exists>u. b p = Some (Some l, u)"
  by (auto simp: bounds_view_def split: option.splits)

lemma setData_lower_rejected:
  assumes "row < length ps" "snd (bounds_view b (ps ! row)) = Some u" "float_ge v u"
  shows "setData_bounds ps row LowerColumn (Some v) b = (b, Raised ValueError)"
proof -
  from bounds_view_Some_upper [OF assms(2)]
  obtain l where bp: "b (ps ! row) = Some (l, Some u)" ..
  then have "setdefault_bounds b (ps ! row) = b" by (rule setdefault_bounds_present)
  with assms bp show ?thesis by (simp add: setData_bounds_def Let_def bounds_view_def)
qed

lemma setData_upper_rejected:
  assumes "row < length ps" "fst (bounds_view b (ps ! row)) = Some l" "float_le v l"
  shows "setData_bounds ps row UpperColumn (Some v) b = (b, Raised ValueError)"
proof -
  from bounds_view_Some_lower [OF assms(2)]
  obtain u where bp: "b (ps ! row) = Some (Some l, u)" ..
  then have "setdefault_bounds b (ps ! row) = b" by (rule setdefault_bounds_present)
  with assms bp show ?thesis by (simp add: setData_bounds_def Let_def bounds_view_def)
qed

lemma setData_nonfinite:
  assumes "row < length ps" "\<not> isfinite v"
  shows "snd (setData_bounds ps row c (Some v) b) \<in> {Returned False, Raised ValueError}
         \<and> (\<forall>p. bounds_view (fst (setData_bounds ps row c (Some v) b)) p = bounds_view b p)"
  using assms
  by (auto simp: setData_bounds_def Let_def bounds_view_setdefault split: prod.splits)

text \<open>A finite value that respects the opposite bound is stored, and only in its slot.\<close>

lemma setData_lower_accepted:
  assumes "row < length ps" "isfinite v" "bounds_view b (ps ! row) = (l, u)"
    "\<forall>u'. u = Some u' \<longrightarrow> \<not> float_ge v u'"
  shows "setData_bounds ps row LowerColumn (Some v) b
           = ((setdefault_bounds b (ps ! row))(ps ! row \<mapsto> (Some v, u)), Returned True)"
  using assms
  by (auto simp: setData_bounds_def Let_def bounds_view_setdefault split: option.splits)

text \<open>
  Claim C8. Setting a bound is rejected with an error when it violates the ordering
  against the stored opposite bound: a new lower bound greater than or equal to the
  stored upper bound, or a new upper bound less than or equal to the stored lower bound,
  raises \<open>ValueError\<close> and leaves the bounds dict exactly as it was. A value that is not
  finite is rejected too (the call returns False, or raises \<open>ValueError\<close> when it also
  violates the ordering) and is never stored: every parameter reads the same bounds
  afterwards as before.
\<close>

theorem C8_bound_rejected_before_store:
  "row < length ps \<Longrightarrow>
     (\<forall>u. snd (bounds_view b (ps ! row)) = Some u \<and> float_ge v u \<longrightarrow>
          setData_bounds ps row LowerColumn (Some v) b = (b, Raised ValueError))
   \<and> (\<forall>l. fst (bounds_view b (ps ! row)) = Some l \<and> float_le v l \<longrightarrow>
          setData_bounds ps row UpperColumn (Some v) b = (b, Raised ValueError))
   \<and> (\<not> isfinite v \<longrightarrow>
          snd (setData_bounds ps row c (Some v) b) \<in> {Returned False, Raised ValueError}
          \<and> (\<forall>p. bounds_view (fst (setData_bounds ps row c (Some v) b)) p = bounds_view b p))"
  using setData_lower_rejected [of row ps b _ v] setData_upper_rejected [of row ps b _ v]
    setData_nonfinite [of row ps v c b]
  by blast

theorem C8_bound_rejected_witness:
  "(0::nat) < length [''redshift'', ''smoothing'', ''continuum'']
   \<and> snd (bounds_view [''redshift'' \<mapsto> (None, Some (Fin (1 / 10)))] ''redshift'') = Some (Fin (1 / 10))
   \<and> float_ge (Fin (2 / 10)) (Fin (1 / 10))
   \<and> setData_bounds [''redshift'', ''smoothing'', ''continuum''] 0 LowerColumn (Some (Fin (2 / 10)))
        [''redshift'' \<mapsto> (None, Some (Fin (1 / 10)))]
      = ([''redshift'' \<mapsto> (None, Some (Fin (1 / 10)))], Raised ValueError)
   \<and> fst (bounds_view [''redshift'' \<mapsto> (Some (Fin 5), None)] ''redshift'') = Some (Fin 5)
   \<and> float_le (Fin 5) (Fin 5)
   \<and> setData_bounds [''redshift'', ''smoothing'', ''continuum''] 0 UpperColumn (Some (Fin 5))
        [''redshift'' \<mapsto> (Some (Fin 5), None)]
      = ([''redshift'' \<mapsto> (Some (Fin 5), None)], Raised ValueError)
   \<and> \<not> isfinite NaN
   \<and> snd (setData_bounds [''redshift'', ''smoothing'', ''continuum''] 0 LowerColumn (Some NaN) Map.empty)
        \<in> {Returned False, Raised ValueError}
   \<and> bounds_view (fst (setData_bounds [''redshift'', ''smoothing'', ''continuum''] 0 LowerColumn
        (Some NaN) Map.empty)) ''redshift'' = (None, None)"
  using C8_bound_rejected_before_store [of 0 "[''redshift'', ''smoothing'', ''continuum'']"
      "[''redshift'' \<mapsto> (None, Some (Fin (1 / 10)))]" "Fin (2 / 10)" LowerColumn]
    C8_bound_rejected_before_store [of 0 "[''redshift'', ''smoothing'', ''continuum'']"
      "[''redshift'' \<mapsto> (Some (Fin 5), None)]" "Fin 5" LowerColumn]
    C8_bound_rejected_before_store [of 0 "[''redshift'', ''smoothing'', ''continuum'']"
      Map.empty NaN LowerColumn]
  by (simp add: bounds_view_def)

section \<open>Theorems: deleting rows of the line list\<close>

lemma mark_selected_ok:
  assumes "\<forall>row \<in> set rows. row < length hashes" "length keep = length hashes"
  shows "\<exists>keep'. mark_selected hashes used rows keep n
            = Inr (keep', n + length (filter (\<lambda>row. hashes ! row \<in> set used) rows))
          \<and> length keep' = length hashes
          \<and> (\<forall>i < length hashes.
                keep' ! i = (keep ! i \<and> \<not> (i \<in> set rows \<and> hashes ! i \<notin> set used)))"
  using assms
proof (induction rows arbitrary: keep n)
  case Nil
  then show ?case by simp
next
  case (Cons row rows)
  from Cons.prems have row: "row < length hashes" and rest: "\<forall>r \<in> set rows. r < length hashes"
    by auto
  show ?case
  proof (cases "hashes ! row \<in> set used")
    case True
    from Cons.IH [OF rest Cons.prems(2), of "n + 1"] obtain keep' where
      k: "mark_selected hashes used rows keep (n + 1)
            = Inr (keep', n + 1 + length (filter (\<lambda>row. hashes ! row \<in> set used) rows))"
        "length keep' = length hashes"
        "\<forall>i < length hashes. keep' ! i = (keep ! i \<and> \<not> (i \<in> set rows \<and> hashes ! i \<notin> set used))"
      by blast
    from row True k(1) have "mark_selected hashes used (row # rows) keep n
       = Inr (keep', n + length (filter (\<lambda>row. hashes ! row \<in> set used) (row # rows)))"
      by simp
    moreover from True k(3) have "\<forall>i < length hashes.
        keep' ! i = (keep ! i \<and> \<not> (i \<in> set (row # rows) \<and> hashes ! i \<notin> set used))"
      by auto
    ultimately show ?thesis using k(2) by blast
  next
    case False
    from Cons.prems(2) have len: "length (keep[row := False]) = length hashes" by simp
    from Cons.IH [OF rest len, of n] obtain keep' where
      k: "mark_selected hashes used rows (keep[row := False]) n
            = Inr (keep', n + length (filter (\<lambda>row. hashes ! row \<in> set used) rows))"
        "length keep' = length hashes"
        "\<forall>i < length hashes. keep' ! i
            = (keep[row := False] ! i \<and> \<not> (i \<in> set rows \<and> hashes ! i \<notin> set used))"
      by blast
    from row False k(1) have "mark_selected hashes used (row # rows) keep n
       = Inr (keep', n + length (filter (\<lambda>row. hashes ! row \<in> set used) (row # rows)))"
      by simp
    moreover have "\<forall>i < length hashes.
        keep' ! i = (keep ! i \<and> \<not> (i \<in> set (row # rows) \<and> hashes ! i \<notin> set used))"
    proof (intro allI impI)
      fix i assume i: "i < length hashes"
      with k(3) have "keep' ! i
            = (keep[row := False] ! i \<and> \<not> (i \<in> set rows \<and> hashes ! i \<notin> set used))" by blast
      with i False Cons.prems(2) show
        "keep' ! i = (keep ! i \<and> \<not> (i \<in> set (row # rows) \<and> hashes ! i \<notin> set used))"
        by (cases "i = row") (auto simp: nth_list_update)
    qed
    ultimately show ?thesis using k(2) by blast
  qed
qed

lemma select_rows_nths:
  "length keep = length xs \<Longrightarrow> select_rows xs keep = nths xs {i. i < length xs \<and> keep ! i}"
proof (induction xs arbitrary: keep)
  case Nil
  then show ?case by (simp add: select_rows_def)
next
  case (Cons x xs)
  then obtain b bs where keep: "keep = b # bs" and len: "length bs = length xs"
    by (cases keep) auto
  have set_eq: "{j. Suc j \<in> {i. i < length (x # xs) \<and> (b # bs) ! i}} = {i. i < length xs \<and> bs ! i}"
    by auto
  from Cons.IH [OF len] have ih: "select_rows xs bs = nths xs {i. i < length xs \<and> bs ! i}" .
  have "select_rows (x # xs) (b # bs) = (if b then [x] else []) @ select_rows xs bs"
    by (simp add: select_rows_def)
  also have "\<dots> = nths (x # xs) {i. i < length (x # xs) \<and> (b # bs) ! i}"
    unfolding nths_Cons set_eq ih by simp
  finally show ?case using keep by simp
qed

lemma nths_cong_below:
  "(\<And>i. i < length xs \<Longrightarrow> (i \<in> A) = (i \<in> B)) \<Longrightarrow> nths xs A = nths xs B"
proof -
  assume h: "\<And>i. i < length xs \<Longrightarrow> (i \<in> A) = (i \<in> B)"
  have "filter (\<lambda>p. snd p \<in> A) (zip xs [0..<length xs]) = filter (\<lambda>p. snd p \<in> B) (zip xs [0..<length xs])"
    by (rule filter_cong) (auto dest!: set_zip_rightD simp: h)
  then show ?thesis by (simp add: nths_def)
qed

lemma list_all_keep_nths:
  "length keep = length xs \<Longrightarrow> list_all (\<lambda>b. b) keep \<Longrightarrow> nths xs {i. i < length xs \<and> keep ! i} = xs"
proof -
  assume len: "length keep = length xs" and all: "list_all (\<lambda>b. b) keep"
  have "nths xs {i. i < length xs \<and> keep ! i} = nths xs {..<length xs}"
    by (rule nths_cong_below) (use len all in \<open>auto simp: list_all_length\<close>)
  then show ?thesis by simp
qed

lemma delete_selected_rows_result:
  assumes ll: "line_list s = Some ll" and rows: "\<forall>row \<in> set rows. row < length ll"
  shows "snd (delete_selected_rows rows s)
           = Returned (length (filter (\<lambda>row. hash (ll ! row) \<in> set (all_hashes_used s)) rows))"
    and "line_list (fst (delete_selected_rows rows s))
           = Some (nths ll {i. i \<notin> set rows \<or> hash (ll ! i) \<in> set (all_hashes_used s)})"
    and "spectral_models (fst (delete_selected_rows rows s)) = spectral_models s"
    and "spectral_model_conflicts (fst (delete_selected_rows rows s)) = spectral_model_conflicts s"
    and "index_current s \<Longrightarrow> index_current (fst (delete_selected_rows rows s))"
proof -
  let ?hs = "map hash ll" and ?used = "all_hashes_used s"
  from rows have r: "\<forall>row \<in> set rows. row < length ?hs" by simp
  have l: "length (replicate (length ll) True) = length ?hs" by simp
  from mark_selected_ok [OF r l, of ?used 0] obtain keep where
    m: "mark_selected ?hs ?used rows (replicate (length ll) True) 0
          = Inr (keep, length (filter (\<lambda>row. ?hs ! row \<in> set ?used) rows))"
    and len: "length keep = length ll"
    and k: "\<forall>i < length ll. keep ! i = (\<not> (i \<in> set rows \<and> ?hs ! i \<notin> set ?used))"
    by auto
  have cnt: "filter (\<lambda>row. ?hs ! row \<in> set ?used) rows
           = filter (\<lambda>row. hash (ll ! row) \<in> set ?used) rows"
    by (rule filter_cong) (use rows in auto)
  have sel: "nths ll {i. i < length ll \<and> keep ! i}
           = nths ll {i. i \<notin> set rows \<or> hash (ll ! i) \<in> set ?used}"
    by (rule nths_cong_below) (use k in auto)
  show "snd (delete_selected_rows rows s)
           = Returned (length (filter (\<lambda>row. hash (ll ! row) \<in> set ?used) rows))"
    using ll m cnt by (simp add: delete_selected_rows_def Let_def)
  show "line_list (fst (delete_selected_rows rows s))
           = Some (nths ll {i. i \<notin> set rows \<or> hash (ll ! i) \<in> set ?used})"
    using ll m len sel list_all_keep_nths [of keep ll] select_rows_nths [of keep ll]
    by (simp add: delete_selected_rows_def Let_def)
  show "spectral_models (fst (delete_selected_rows rows s)) = spectral_models s"
    using ll m by (simp add: delete_selected_rows_def Let_def)
  show "spectral_model_conflicts (fst (delete_selected_rows rows s)) = spectral_model_conflicts s"
    using ll m by (simp add: delete_selected_rows_def Let_def)
  show "index_current s \<Longrightarrow> index_current (fst (delete_selected_rows rows s))"
    using ll m by (simp add: delete_selected_rows_def Let_def index_current_def)
qed


text \<open>
  Claim C1, as the code has it. Deleting the selected rows of the line list does not fail
  when a selected transition is used by a spectral model, and it is not all or nothing:
  the call returns the number of selected rows whose hash some model references (the
  rows named in the warning), these rows stay, every selected row that no model
  references is removed, and the unselected rows and the model list are untouched.
\<close>

theorem C1_used_rows_skipped_others_deleted:
  "line_list s = Some ll \<Longrightarrow> \<forall>row \<in> set rows. row < length ll \<Longrightarrow>
     snd (delete_selected_rows rows s)
       = Returned (length (filter (\<lambda>row. hash (ll ! row) \<in> set (all_hashes_used s)) rows))
     \<and> line_list (fst (delete_selected_rows rows s))
       = Some (nths ll {i. i \<notin> set rows \<or> hash (ll ! i) \<in> set (all_hashes_used s)})
     \<and> spectral_models (fst (delete_selected_rows rows s)) = spectral_models s"
  using delete_selected_rows_result(1,2,3) [of s ll rows] by simp

theorem C1_used_rows_skipped_witness:
  "line_list three_lines = Some [line_h1, line_h2, line_h3]
   \<and> (0::nat) < length [line_h1, line_h2, line_h3]
   \<and> (2::nat) < length [line_h1, line_h2, line_h3]
   \<and> snd (delete_selected_rows [0, 2] three_lines) = Returned 1
   \<and> line_list (fst (delete_selected_rows [0, 2] three_lines)) = Some [line_h1, line_h2]"
proof -
  have h1: "line_list three_lines = Some [line_h1, line_h2, line_h3]"
    by (simp add: three_lines_def)
  have h2: "\<forall>row \<in> set [0, 2]. row < length [line_h1, line_h2, line_h3]"
    by simp
  have used: "set (all_hashes_used three_lines) = {''h1'', ''h2''}"
    by (auto simp: all_hashes_used_def three_lines_def profile_on_def)
  have kept: "nths [line_h1, line_h2, line_h3]
                {i. i \<notin> set [0, 2] \<or> hash ([line_h1, line_h2, line_h3] ! i) \<in> {''h1'', ''h2''}}
              = [line_h1, line_h2]"
    by (simp add: nths_Cons line_h1_def line_h2_def line_h3_def)
  have counted: "length (filter (\<lambda>row. hash ([line_h1, line_h2, line_h3] ! row) \<in> {''h1'', ''h2''})
                   [0, 2]) = 1"
    by (simp add: line_h1_def line_h3_def)
  from C1_used_rows_skipped_others_deleted [OF h1 h2] h1 h2 used kept counted
  show ?thesis by simp
qed

text \<open>
  The claim as stated fails on the example of the spec: the selection holds \<open>h1\<close>, which
  both models use, and \<open>h3\<close>, which none uses. The call returns (with one row reported
  as skipped), and \<open>h3\<close> is gone: the line list went from three rows to two.
\<close>

theorem C1_counterexample:
  "hash line_h1 \<in> set (all_hashes_used three_lines)
   \<and> delete_selected_rows [0, 2] three_lines
       = (three_lines\<lparr>line_list := Some [line_h1, line_h2],
                      line_list_argsort_hashes := Some [0, 1]\<rparr>, Returned 1)"
  by code_simp

section \<open>Theorems: the hash index and the conflict groups after a change\<close>

lemma delete_selected_rows_cases:
  "fst (delete_selected_rows rows s) = s
   \<or> (\<exists>ll'. fst (delete_selected_rows rows s)
          = s\<lparr>line_list := Some ll', line_list_argsort_hashes := Some (hash_index ll')\<rparr>)"
  by (auto simp: delete_selected_rows_def Let_def split: option.splits sum.splits)

lemma delete_selected_rows_index:
  "index_current s \<or> line_list (fst (delete_selected_rows rows s)) \<noteq> line_list s
     \<Longrightarrow> index_current (fst (delete_selected_rows rows s))"
proof -
  assume pre: "index_current s \<or> line_list (fst (delete_selected_rows rows s)) \<noteq> line_list s"
  from delete_selected_rows_cases [of rows s] consider
    (same) "fst (delete_selected_rows rows s) = s"
  | (changed) ll' where "fst (delete_selected_rows rows s)
        = s\<lparr>line_list := Some ll', line_list_argsort_hashes := Some (hash_index ll')\<rparr>"
    by blast
  then show ?thesis
  proof cases
    case same
    with pre show ?thesis by simp
  next
    case changed
    then show ?thesis by (simp add: index_current_def)
  qed
qed

lemma delete_selected_rows_frame:
  "spectral_model_conflicts (fst (delete_selected_rows rows s)) = spectral_model_conflicts s
   \<and> spectral_models (fst (delete_selected_rows rows s)) = spectral_models s"
  using delete_selected_rows_cases [of rows s] by auto

lemma sort_line_list_index:
  "snd (sort_line_list table_sort column descending s) = Returned ()
     \<Longrightarrow> index_current (fst (sort_line_list table_sort column descending s))"
  by (auto simp: sort_line_list_def index_current_def Let_def split: option.splits if_splits)

lemma sort_line_list_out_of_range:
  "line_list s \<noteq> None \<Longrightarrow> length line_list_columns \<le> column
     \<Longrightarrow> sort_line_list table_sort column descending s = (s, Raised IndexError)"
  by (auto simp: sort_line_list_def split: option.splits)

lemma import_from_filename_cases:
  "fst (import_from_filename merge files s) = s
   \<or> (\<exists>ll'. fst (import_from_filename merge files s)
          = s\<lparr>line_list := Some ll', line_list_argsort_hashes := Some (hash_index ll')\<rparr>)"
  by (auto simp: import_from_filename_def split: list.splits sum.splits option.splits)

lemma import_from_filename_index:
  "index_current s \<or> line_list (fst (import_from_filename merge files s)) \<noteq> line_list s
     \<Longrightarrow> index_current (fst (import_from_filename merge files s))"
proof -
  assume pre: "index_current s
     \<or> line_list (fst (import_from_filename merge files s)) \<noteq> line_list s"
  from import_from_filename_cases [of merge files s] consider
    (same) "fst (import_from_filename merge files s) = s"
  | (changed) ll' where "fst (import_from_filename merge files s)
        = s\<lparr>line_list := Some ll', line_list_argsort_hashes := Some (hash_index ll')\<rparr>"
    by blast
  then show ?thesis
  proof cases
    case same
    with pre show ?thesis by simp
  next
    case changed
    then show ?thesis by (simp add: index_current_def)
  qed
qed

lemma add_profiles_current:
  "snd (add_selected_rows_as_profile_models new_profile conflicts rows s) = Returned ()
     \<Longrightarrow> conflicts_current conflicts (fst (add_selected_rows_as_profile_models new_profile conflicts rows s))"
  by (auto simp: add_selected_rows_as_profile_models_def conflicts_current_def models_or_empty_def
      Let_def split: option.splits if_splits)

lemma add_synthesis_current:
  "snd (add_selected_rows_as_synthesis_model new_synthesis unique_elements conflicts rows picked s)
       = Returned ()
   \<Longrightarrow> models_or_empty (fst (add_selected_rows_as_synthesis_model new_synthesis unique_elements
         conflicts rows picked s)) \<noteq> models_or_empty s
   \<Longrightarrow> conflicts_current conflicts (fst (add_selected_rows_as_synthesis_model new_synthesis
         unique_elements conflicts rows picked s))"
  by (auto simp: add_selected_rows_as_synthesis_model_def conflicts_current_def models_or_empty_def
      Let_def split: option.splits if_splits)

lemma import_from_filename_Some:
  "import_from_filename merge files s = (s1, Returned (Some ts)) \<Longrightarrow> line_list s1 \<noteq> None"
  by (auto simp: import_from_filename_def split: list.splits sum.splits option.splits)

lemma add_imported_current:
  "snd (add_imported_lines_as_profile_models merge new_profile conflicts files s) = Returned ()
   \<Longrightarrow> models_or_empty (fst (add_imported_lines_as_profile_models merge new_profile conflicts files s))
         \<noteq> models_or_empty s
   \<Longrightarrow> conflicts_current conflicts
         (fst (add_imported_lines_as_profile_models merge new_profile conflicts files s))"
proof -
  assume ret: "snd (add_imported_lines_as_profile_models merge new_profile conflicts files s) = Returned ()"
    and ch: "models_or_empty (fst (add_imported_lines_as_profile_models merge new_profile conflicts files s))
         \<noteq> models_or_empty s"
  obtain s1 out where imp: "import_from_filename merge files s = (s1, out)" by (cases "import_from_filename merge files s")
  have m1: "models_or_empty s1 = models_or_empty s"
    using import_from_filename_cases [of merge files s] imp by (auto simp: models_or_empty_def)
  show ?thesis
  proof (cases out)
    case (Raised e)
    with ret imp show ?thesis by (simp add: add_imported_lines_as_profile_models_def)
  next
    case (Returned r)
    show ?thesis
    proof (cases r)
      case None
      with Returned imp ch m1 show ?thesis by (simp add: add_imported_lines_as_profile_models_def)
    next
      case (Some ts)
      with Returned imp import_from_filename_Some [of merge files s s1 ts]
      obtain ll where "line_list s1 = Some ll" by auto
      with Some Returned imp show ?thesis
        by (simp add: add_imported_lines_as_profile_models_def conflicts_current_def
            models_or_empty_def Let_def)
    qed
  qed
qed

lemma measured_import_current:
  "snd (import_transitions_with_measured_equivalent_widths merge new_profile milli conflicts files s)
      = Returned ()
   \<Longrightarrow> files \<noteq> []
   \<Longrightarrow> conflicts_current conflicts
         (fst (import_transitions_with_measured_equivalent_widths merge new_profile milli conflicts files s))"
  by (auto simp: import_transitions_with_measured_equivalent_widths_def conflicts_current_def
      models_or_empty_def Let_def split: list.splits sum.splits option.splits if_splits)

lemma append_model_line_list [simp]: "line_list (append_model m s) = line_list s"
  by (simp add: append_model_def)

lemma add_synthesis_given_line_list [simp]:
  "line_list (add_synthesis_given new_synthesis pairs s) = line_list s"
  by (induction pairs arbitrary: s) auto

lemma add_synthesis_asking_line_list [simp]:
  "line_list (add_synthesis_asking new_synthesis unique_elements ask files s) = line_list s"
  by (induction files arbitrary: s) auto

lemma add_imported_synthesis_current:
  "snd (add_imported_lines_as_synthesis_model merge new_synthesis unique_elements ask conflicts
          files input_elements s) = Returned ()
   \<Longrightarrow> models_or_empty (fst (add_imported_lines_as_synthesis_model merge new_synthesis
          unique_elements ask conflicts files input_elements s)) \<noteq> models_or_empty s
   \<Longrightarrow> conflicts_current conflicts (fst (add_imported_lines_as_synthesis_model merge new_synthesis
          unique_elements ask conflicts files input_elements s))"
proof -
  let ?r = "add_imported_lines_as_synthesis_model merge new_synthesis unique_elements ask conflicts
          files input_elements s"
  assume ret: "snd ?r = Returned ()" and ch: "models_or_empty (fst ?r) \<noteq> models_or_empty s"
  obtain s1 out where imp: "import_from_filename merge files s = (s1, out)"
    by (cases "import_from_filename merge files s")
  have m1: "models_or_empty s1 = models_or_empty s"
    using import_from_filename_cases [of merge files s] imp by (auto simp: models_or_empty_def)
  show ?thesis
  proof (cases out)
    case (Raised e)
    with ret imp show ?thesis by (simp add: add_imported_lines_as_synthesis_model_def)
  next
    case (Returned r)
    show ?thesis
    proof (cases r)
      case None
      with Returned imp ch m1 show ?thesis by (simp add: add_imported_lines_as_synthesis_model_def)
    next
      case (Some full)
      with Returned imp import_from_filename_Some [of merge files s s1 full]
      obtain ll where ll: "line_list s1 = Some ll" by auto
      with Some Returned imp ret show ?thesis
        by (auto simp: add_imported_lines_as_synthesis_model_def conflicts_current_def
            models_or_empty_def Let_def split: option.splits if_splits sum.splits)
    qed
  qed
qed

lemma import_transitions_current:
  "snd (import_transitions session_import conflicts s) = Returned ()
   \<Longrightarrow> 0 < snd (session_import s)
   \<Longrightarrow> conflicts_current conflicts (fst (import_transitions session_import conflicts s))"
  by (auto simp: import_transitions_def conflicts_current_def models_or_empty_def
      split: prod.splits option.splits if_splits)

lemma delete_models_current:
  "snd (delete_selected_models conflicts idx s) = Returned ()
   \<Longrightarrow> conflicts_current conflicts (fst (delete_selected_models conflicts idx s))"
  by (auto simp: delete_selected_models_def conflicts_current_def models_or_empty_def
      Let_def split: option.splits if_splits)

lemma conflict_groups_ignores_line_list: "conflict_groups ms ll = conflict_groups ms ll'"
  by (simp add: conflict_groups_def)

text \<open>
  With the conflict detector of the spec, which looks at the transition hashes of the
  models only, deleting rows of the line list cannot make current conflict groups stale.
\<close>

lemma delete_rows_keeps_spec_conflicts_current:
  assumes "conflicts_current conflict_groups s"
  shows "conflicts_current conflict_groups (fst (delete_selected_rows rows s))"
proof -
  from delete_selected_rows_cases [of rows s] consider
    (same) "fst (delete_selected_rows rows s) = s"
  | (changed) ll' where "fst (delete_selected_rows rows s)
        = s\<lparr>line_list := Some ll', line_list_argsort_hashes := Some (hash_index ll')\<rparr>"
    by blast
  then show ?thesis
  proof cases
    case same
    with assms show ?thesis by simp
  next
    case changed
    from assms obtain ll where "line_list s = Some ll"
      and "spectral_model_conflicts s = conflict_groups (models_or_empty s) ll"
      by (auto simp: conflicts_current_def split: option.splits)
    with changed conflict_groups_ignores_line_list [of "models_or_empty s" ll ll']
    show ?thesis by (simp add: conflicts_current_def models_or_empty_def)
  qed
qed


text \<open>
  Claim C2, as the code has it. Creating spectral models and deleting spectral models
  store the conflict groups recomputed from the resulting model list and line list:
  whenever one of these calls returns with a changed model list (for the addition of
  selected rows as profile models, the import of measured lines from at least one file
  and the deletion of models: whenever it returns; for the import of exported
  transitions: whenever it returns and has loaded a model), the stored groups are the
  value of the conflict function on the lists the session then holds. Deleting rows of
  the line list does not recompute: it leaves the stored conflict groups and the model
  list as they were.
\<close>

theorem C2_conflicts_recomputed_on_model_changes:
  "(snd (add_selected_rows_as_profile_models new_profile conflicts rows s) = Returned ()
      \<longrightarrow> conflicts_current conflicts
            (fst (add_selected_rows_as_profile_models new_profile conflicts rows s)))
   \<and> (snd (add_selected_rows_as_synthesis_model new_synthesis unique_elements conflicts rows
             picked s) = Returned ()
        \<and> models_or_empty (fst (add_selected_rows_as_synthesis_model new_synthesis
             unique_elements conflicts rows picked s)) \<noteq> models_or_empty s
      \<longrightarrow> conflicts_current conflicts (fst (add_selected_rows_as_synthesis_model new_synthesis
             unique_elements conflicts rows picked s)))
   \<and> (snd (add_imported_lines_as_profile_models merge new_profile conflicts files s) = Returned ()
        \<and> models_or_empty (fst (add_imported_lines_as_profile_models merge new_profile conflicts
             files s)) \<noteq> models_or_empty s
      \<longrightarrow> conflicts_current conflicts
            (fst (add_imported_lines_as_profile_models merge new_profile conflicts files s)))
   \<and> (snd (import_transitions_with_measured_equivalent_widths merge new_profile milli conflicts
             files s) = Returned () \<and> files \<noteq> []
      \<longrightarrow> conflicts_current conflicts (fst (import_transitions_with_measured_equivalent_widths
             merge new_profile milli conflicts files s)))
   \<and> (snd (add_imported_lines_as_synthesis_model merge new_synthesis unique_elements ask conflicts
             files input_elements s) = Returned ()
        \<and> models_or_empty (fst (add_imported_lines_as_synthesis_model merge new_synthesis
             unique_elements ask conflicts files input_elements s)) \<noteq> models_or_empty s
      \<longrightarrow> conflicts_current conflicts (fst (add_imported_lines_as_synthesis_model merge
             new_synthesis unique_elements ask conflicts files input_elements s)))
   \<and> (snd (import_transitions session_import conflicts s) = Returned ()
        \<and> 0 < snd (session_import s)
      \<longrightarrow> conflicts_current conflicts (fst (import_transitions session_import conflicts s)))
   \<and> (snd (delete_selected_models conflicts rows s) = Returned ()
      \<longrightarrow> conflicts_current conflicts (fst (delete_selected_models conflicts rows s)))
   \<and> spectral_model_conflicts (fst (delete_selected_rows rows s)) = spectral_model_conflicts s
   \<and> spectral_models (fst (delete_selected_rows rows s)) = spectral_models s"
  using add_profiles_current [of new_profile conflicts rows s]
    add_synthesis_current [of new_synthesis unique_elements conflicts rows picked s]
    add_imported_current [of merge new_profile conflicts files s]
    measured_import_current [of merge new_profile milli conflicts files s]
    add_imported_synthesis_current [of merge new_synthesis unique_elements ask conflicts files
      input_elements s]
    import_transitions_current [of session_import conflicts s]
    delete_models_current [of conflicts rows s]
    delete_selected_rows_frame [of rows s]
  by blast

theorem C2_conflicts_recomputed_witness:
  "snd (add_selected_rows_as_profile_models (\<lambda>s. profile_on) conflict_groups [0] three_lines)
     = Returned ()
   \<and> conflicts_current conflict_groups
       (fst (add_selected_rows_as_profile_models (\<lambda>s. profile_on) conflict_groups [0] three_lines))
   \<and> snd (add_selected_rows_as_synthesis_model (\<lambda>s. synthesis_on) distinct_elements
            conflict_groups [0] [] three_lines) = Returned ()
   \<and> models_or_empty (fst (add_selected_rows_as_synthesis_model (\<lambda>s. synthesis_on)
            distinct_elements conflict_groups [0] [] three_lines)) \<noteq> models_or_empty three_lines
   \<and> conflicts_current conflict_groups (fst (add_selected_rows_as_synthesis_model
            (\<lambda>s. synthesis_on) distinct_elements conflict_groups [0] [] three_lines))
   \<and> snd (add_imported_lines_as_profile_models (merge_spec True False) (\<lambda>s. profile_on)
            conflict_groups [[measured_h4]] three_lines) = Returned ()
   \<and> models_or_empty (fst (add_imported_lines_as_profile_models (merge_spec True False)
            (\<lambda>s. profile_on) conflict_groups [[measured_h4]] three_lines))
        \<noteq> models_or_empty three_lines
   \<and> conflicts_current conflict_groups (fst (add_imported_lines_as_profile_models
            (merge_spec True False) (\<lambda>s. profile_on) conflict_groups [[measured_h4]] three_lines))
   \<and> snd (add_imported_lines_as_synthesis_model (merge_spec True False) (\<lambda>s. synthesis_on)
            distinct_elements picks_nothing conflict_groups [[measured_h4]] None three_lines)
        = Returned ()
   \<and> models_or_empty (fst (add_imported_lines_as_synthesis_model (merge_spec True False)
            (\<lambda>s. synthesis_on) distinct_elements picks_nothing conflict_groups [[measured_h4]] None
            three_lines)) \<noteq> models_or_empty three_lines
   \<and> conflicts_current conflict_groups (fst (add_imported_lines_as_synthesis_model
            (merge_spec True False) (\<lambda>s. synthesis_on) distinct_elements picks_nothing
            conflict_groups [[measured_h4]] None three_lines))
   \<and> snd (import_transitions load_one_model conflict_groups three_lines) = Returned ()
   \<and> 0 < snd (load_one_model three_lines)
   \<and> conflicts_current conflict_groups
        (fst (import_transitions load_one_model conflict_groups three_lines))
   \<and> snd (delete_selected_models conflict_groups [0] three_lines) = Returned ()
   \<and> conflicts_current conflict_groups (fst (delete_selected_models conflict_groups [0] three_lines))
   \<and> snd (import_transitions_with_measured_equivalent_widths (merge_spec False False)
            (\<lambda>s. profile_on) (scale_float (1 / 1000)) conflict_groups [[measured_h4]] one_line)
        = Returned ()
   \<and> [[measured_h4]] \<noteq> []
   \<and> conflicts_current conflict_groups (fst (import_transitions_with_measured_equivalent_widths
            (merge_spec False False) (\<lambda>s. profile_on) (scale_float (1 / 1000)) conflict_groups
            [[measured_h4]] one_line))
   \<and> spectral_model_conflicts (fst (delete_selected_rows [0] three_lines))
        = spectral_model_conflicts three_lines"
proof -
  have h1: "snd (add_selected_rows_as_profile_models (\<lambda>s. profile_on) conflict_groups [0]
              three_lines) = Returned ()"
    by code_simp
  have h2: "snd (add_selected_rows_as_synthesis_model (\<lambda>s. synthesis_on) distinct_elements
              conflict_groups [0] [] three_lines) = Returned ()"
    by code_simp
  have h2': "models_or_empty (fst (add_selected_rows_as_synthesis_model (\<lambda>s. synthesis_on)
              distinct_elements conflict_groups [0] [] three_lines)) \<noteq> models_or_empty three_lines"
    by code_simp
  have h3: "snd (add_imported_lines_as_profile_models (merge_spec True False) (\<lambda>s. profile_on)
              conflict_groups [[measured_h4]] three_lines) = Returned ()"
    by code_simp
  have h3': "models_or_empty (fst (add_imported_lines_as_profile_models (merge_spec True False)
              (\<lambda>s. profile_on) conflict_groups [[measured_h4]] three_lines))
            \<noteq> models_or_empty three_lines"
    by code_simp
  have h4: "snd (import_transitions_with_measured_equivalent_widths (merge_spec False False)
              (\<lambda>s. profile_on) (scale_float (1 / 1000)) conflict_groups [[measured_h4]] one_line)
            = Returned ()"
    by code_simp
  have h5: "snd (delete_selected_models conflict_groups [0] three_lines) = Returned ()"
    by code_simp
  have h6: "snd (add_imported_lines_as_synthesis_model (merge_spec True False) (\<lambda>s. synthesis_on)
              distinct_elements picks_nothing conflict_groups [[measured_h4]] None three_lines)
            = Returned ()"
    by code_simp
  have h6': "models_or_empty (fst (add_imported_lines_as_synthesis_model (merge_spec True False)
              (\<lambda>s. synthesis_on) distinct_elements picks_nothing conflict_groups [[measured_h4]]
              None three_lines)) \<noteq> models_or_empty three_lines"
    by code_simp
  have h7: "snd (import_transitions load_one_model conflict_groups three_lines) = Returned ()"
    by code_simp
  have h7': "0 < snd (load_one_model three_lines)"
    by (simp add: load_one_model_def)
  note on_three = C2_conflicts_recomputed_on_model_changes
    [where s = three_lines and conflicts = conflict_groups and new_profile = "\<lambda>s. profile_on"
       and new_synthesis = "\<lambda>s. synthesis_on" and unique_elements = distinct_elements
       and rows = "[0]" and picked = "[]" and merge = "merge_spec True False"
       and files = "[[measured_h4]]" and ask = picks_nothing and input_elements = None
       and session_import = load_one_model]
  note on_one = C2_conflicts_recomputed_on_model_changes
    [where s = one_line and conflicts = conflict_groups and new_profile = "\<lambda>s. profile_on"
       and merge = "merge_spec False False" and milli = "scale_float (1 / 1000)"
       and files = "[[measured_h4]]"]
  from on_three on_one h1 h2 h2' h3 h3' h4 h5 h6 h6' h7 h7' show ?thesis by simp
qed

text \<open>
  The claim as stated fails for the deletion of rows. In the example session of the spec
  the stored groups are empty although the two models share \<open>h1\<close>; deleting the unused
  row \<open>h3\<close> is a structural change, and afterwards the stored groups are still empty, not
  the groups of the model list and line list that the session now holds.
\<close>

theorem C2_counterexample:
  "spectral_model_conflicts (fst (delete_selected_rows [2] three_lines)) = []
   \<and> spectral_models (fst (delete_selected_rows [2] three_lines))
        = Some [profile_on [''h1''], profile_on [''h1'', ''h2'']]
   \<and> line_list (fst (delete_selected_rows [2] three_lines)) = Some [line_h1, line_h2]
   \<and> conflict_groups [profile_on [''h1''], profile_on [''h1'', ''h2'']] [line_h1, line_h2] = [[0, 1]]
   \<and> \<not> conflicts_current conflict_groups (fst (delete_selected_rows [2] three_lines))"
  by code_simp

text \<open>
  The operations that the claim C3 names keep the hash index current: the sort, the
  deletion of rows and the import of line-list files (lemmas \<open>sort_line_list_index\<close>,
  \<open>delete_selected_rows_index\<close>, \<open>import_from_filename_index\<close>). A sort by a column
  number past the last column raises IndexError and leaves the session as it was (lemma
  \<open>sort_line_list_out_of_range\<close>).

  Claim C3. After every mutation of the line list the stored hash index is the argsort
  of the hash column of the current line list. The import of transitions with measured
  equivalent widths breaks this: it stores the index before it stores the merged line
  list. On a session that holds the one line \<open>h5\<close> with a current index, importing a file
  with the line \<open>h4\<close> returns with the line list \<open>[h5, h4]\<close> and the index \<open>[0]\<close>, the
  argsort of the old one-row list, where the argsort of the current hash column is
  \<open>[1, 0]\<close>.
\<close>

theorem C3_measured_import_leaves_stale_index:
  "(case import_transitions_with_measured_equivalent_widths (merge_spec False False)
           (\<lambda>s. profile_on) (scale_float (1 / 1000)) conflict_groups [[measured_h4]] one_line of
       (s', out) \<Rightarrow> out = Returned () \<and> line_list s' = Some [measured_h5, measured_h4]
                   \<and> line_list_argsort_hashes s' = Some [0])
   \<and> hash_index [measured_h5, measured_h4] = [1, 0]
   \<and> index_current one_line
   \<and> \<not> index_current (fst (import_transitions_with_measured_equivalent_widths
           (merge_spec False False) (\<lambda>s. profile_on) (scale_float (1 / 1000)) conflict_groups
           [[measured_h4]] one_line))"
  by code_simp

section \<open>Theorems: fitting all models\<close>

lemma fit_by_class_ok:
  assumes "\<forall>err. fit m = FitRaises err \<longrightarrow> err = ValueError \<or> err = RuntimeError"
  shows "fit_by_class fit m = Inr (after_fit fit m, fit_failure fit m)"
proof (cases "fit m")
  case (FitOk r)
  then show ?thesis
    by (cases "kind m")
       (simp_all add: fit_by_class_def fit_logged_def run_fit_def after_fit_def fit_failure_def)
next
  case (FitRaises err)
  with assms have "err = ValueError \<or> err = RuntimeError" by simp
  with FitRaises show ?thesis
    by (cases "kind m")
       (auto simp: fit_by_class_def fit_logged_def run_fit_def after_fit_def fit_failure_def)
qed

lemma fit_acceptable_ok:
  assumes "\<forall>m \<in> set ms. \<forall>err. fit m = FitRaises err \<longrightarrow> err = ValueError \<or> err = RuntimeError"
  shows "fit_acceptable fit ms
           = (map (\<lambda>m. if is_acceptable m then after_fit fit m else m) ms,
              concat (map (\<lambda>m. if is_acceptable m then fit_failure fit m else []) ms),
              length (filter (\<lambda>m. \<not> is_acceptable m) ms), None)"
  using assms
proof (induction ms)
  case Nil
  then show ?case by simp
next
  case (Cons m ms)
  then have one: "fit_by_class fit m = Inr (after_fit fit m, fit_failure fit m)"
    by (intro fit_by_class_ok) simp
  from Cons have rest: "fit_acceptable fit ms
           = (map (\<lambda>m. if is_acceptable m then after_fit fit m else m) ms,
              concat (map (\<lambda>m. if is_acceptable m then fit_failure fit m else []) ms),
              length (filter (\<lambda>m. \<not> is_acceptable m) ms), None)" by simp
  show ?case by (simp add: one rest)
qed

lemma fit_every_ok:
  assumes "\<forall>m \<in> set ms. \<forall>err. fit m = FitRaises err \<longrightarrow> err = ValueError \<or> err = RuntimeError"
  shows "fit_every fit ms = (map (after_fit fit) ms, concat (map (fit_failure fit) ms), None)"
  using assms
proof (induction ms)
  case Nil
  then show ?case by simp
next
  case (Cons m ms)
  then have one: "fit_by_class fit m = Inr (after_fit fit m, fit_failure fit m)"
    by (intro fit_by_class_ok) simp
  from Cons have rest: "fit_every fit ms
      = (map (after_fit fit) ms, concat (map (fit_failure fit) ms), None)" by simp
  show ?case by (simp add: one rest)
qed

lemma none_acceptable_count:
  "(length (filter (\<lambda>m. \<not> is_acceptable m) ms) = length ms) = (\<not> list_ex is_acceptable ms)"
proof (induction ms)
  case Nil
  then show ?case by simp
next
  case (Cons m ms)
  have le: "length (filter (\<lambda>m. \<not> is_acceptable m) ms) \<le> length ms" by (rule length_filter_le)
  show ?case
  proof (cases "is_acceptable m")
    case True
    from le have "length (filter (\<lambda>m. \<not> is_acceptable m) ms) \<noteq> Suc (length ms)" by arith
    with True show ?thesis by simp
  next
    case False
    with Cons show ?thesis by simp
  qed
qed

text \<open>
  Claim C4, as the code has it. Bulk fitting applies the fit to every acceptable model,
  or to all models when none is acceptable. A fit that fails with \<open>ValueError\<close> or
  \<open>RuntimeError\<close> does not abort the batch: when these are the only exceptions the fits
  raise, the call returns, every model of the subset whose fit succeeds holds its new
  result, every other model is unchanged, and the failures are exactly what was logged,
  in model order.
\<close>

theorem C4_logged_failures_do_not_abort:
  "\<forall>m \<in> set ms. \<forall>err. fit m = FitRaises err \<longrightarrow> err = ValueError \<or> err = RuntimeError \<Longrightarrow>
     fit_all fit ms
       = (map (\<lambda>m. if in_fit_subset ms m then after_fit fit m else m) ms,
          concat (map (\<lambda>m. if in_fit_subset ms m then fit_failure fit m else []) ms),
          Returned ())"
  (is "?only_logged \<Longrightarrow> _")
proof -
  assume assms: ?only_logged
  show ?thesis
  proof (cases "list_ex is_acceptable ms")
    case True
    then have cnt: "length (filter (\<lambda>m. \<not> is_acceptable m) ms) \<noteq> length ms"
      using none_acceptable_count [of ms] by simp
    from True have sub: "in_fit_subset ms = is_acceptable" by (simp add: in_fit_subset_def fun_eq_iff)
    show ?thesis
      using cnt by (simp add: fit_all_def fit_acceptable_ok [OF assms] sub)
  next
    case False
    then have cnt: "length (filter (\<lambda>m. \<not> is_acceptable m) ms) = length ms"
      using none_acceptable_count [of ms] by simp
    from False have none: "\<forall>m \<in> set ms. \<not> is_acceptable m" by (simp add: list_ex_iff)
    then have same: "map (\<lambda>m. if is_acceptable m then after_fit fit m else m) ms = ms"
      by (induction ms) auto
    from none have nolog: "concat (map (\<lambda>m. if is_acceptable m then fit_failure fit m else []) ms) = []"
      by (induction ms) auto
    from False have sub: "in_fit_subset ms = (\<lambda>m. True)" by (simp add: in_fit_subset_def fun_eq_iff)
    show ?thesis
      using cnt by (simp add: fit_all_def fit_acceptable_ok [OF assms] same nolog fit_every_ok [OF assms] sub)
  qed
qed

theorem C4_logged_failures_witness:
  "fit_failure (fails_on_h1 ValueError) (acceptable_on [''h1'']) = [ValueError]
   \<and> fit_failure (fails_on_h1 ValueError) (acceptable_on [''h2'']) = []
   \<and> fit_failure (fails_on_h1 ValueError) (profile_on [''h3'']) = []
   \<and> fit_all (fails_on_h1 ValueError)
         [acceptable_on [''h1''], acceptable_on [''h2''], profile_on [''h3'']]
       = ([acceptable_on [''h1''],
           (acceptable_on [''h2''])\<lparr>md_fitted_result := Some
              \<lparr>fit_equivalent_width = Some (Fin (1 / 20), Fin 0, Fin 0), fit_abundances = None\<rparr>\<rparr>,
           profile_on [''h3'']],
          [ValueError], Returned ())"
proof -
  have h: "\<forall>m \<in> set [acceptable_on [''h1''], acceptable_on [''h2''], profile_on [''h3'']].
      \<forall>err. fails_on_h1 ValueError m = FitRaises err \<longrightarrow> err = ValueError \<or> err = RuntimeError"
    by (simp add: fails_on_h1_def)
  have acc: "is_acceptable (acceptable_on [''h1''])" "is_acceptable (acceptable_on [''h2''])"
    "\<not> is_acceptable (profile_on [''h3''])"
    by (simp_all add: is_acceptable_def acceptable_on_def profile_on_def)
  have fits: "after_fit (fails_on_h1 ValueError) (acceptable_on [''h1'']) = acceptable_on [''h1'']"
    "after_fit (fails_on_h1 ValueError) (acceptable_on [''h2''])
       = (acceptable_on [''h2''])\<lparr>md_fitted_result := Some
              \<lparr>fit_equivalent_width = Some (Fin (1 / 20), Fin 0, Fin 0), fit_abundances = None\<rparr>\<rparr>"
    "fit_failure (fails_on_h1 ValueError) (acceptable_on [''h1'']) = [ValueError]"
    "fit_failure (fails_on_h1 ValueError) (acceptable_on [''h2'']) = []"
    "fit_failure (fails_on_h1 ValueError) (profile_on [''h3'']) = []"
    by (simp_all add: after_fit_def fit_failure_def fails_on_h1_def acceptable_on_def profile_on_def)
  from C4_logged_failures_do_not_abort [OF h] acc fits show ?thesis
    by (simp add: in_fit_subset_def)
qed

text \<open>
  The claim as stated fails when a fit raises an exception of another class: with two
  acceptable models, the first of which fails with such an exception, \<open>fit_all\<close> raises
  it, and the second model, which is in the subset and whose fit would succeed, is left
  without a fitted result.
\<close>

theorem C4_counterexample:
  "in_fit_subset [acceptable_on [''h1''], acceptable_on [''h2'']] (acceptable_on [''h2''])
   \<and> fails_on_h1 OtherError (acceptable_on [''h2''])
       = FitOk \<lparr>fit_equivalent_width = Some (Fin (1 / 20), Fin 0, Fin 0), fit_abundances = None\<rparr>
   \<and> fit_all (fails_on_h1 OtherError) [acceptable_on [''h1''], acceptable_on [''h2'']]
       = ([acceptable_on [''h1''], acceptable_on [''h2'']], [], Raised OtherError)
   \<and> md_fitted_result (acceptable_on [''h2'']) = None"
  by code_simp

section \<open>Theorems: measuring all abundances\<close>






lemma enumerate_entry:
  "(i, m) \<in> set (enumerate 0 ms) \<Longrightarrow> i < length ms \<and> ms ! i = m"
  by (auto simp: in_set_enumerate_eq)






section \<open>Theorems: exporting spectral models\<close>

lemma dict_pop_last:
  "dict_pop (store @ [d]) (length store) key = store @ [d(key := None)]"
  by (simp add: dict_pop_def)

lemma export_one_returned:
  assumes "export_one resolve ll s row = (s1, Returned (state, positions))"
  shows "row < length (model_objects s)
       \<and> dict_objects s1
           = dict_objects s @ [strip_transient (dict_objects s ! obj_metadata (model_objects s ! row))]
       \<and> state = (getstate (model_objects s ! row))\<lparr>state_metadata := length (dict_objects s)\<rparr>
       \<and> model_objects s1
           = (model_objects s)[row := (model_objects s ! row)\<lparr>obj_transition_indices := positions\<rparr>]"
  using assms
  by (auto simp: export_one_def Let_def deepcopy_state_def getstate_def dict_pop_last
      strip_transient_def split: if_splits sum.splits)

lemma getstate_reindexed: "getstate (m\<lparr>obj_transition_indices := p\<rparr>) = getstate m"
  by (simp add: getstate_def)

lemma map_getstate_update:
  "row < length ms \<Longrightarrow> map getstate (ms[row := (ms ! row)\<lparr>obj_transition_indices := p\<rparr>]) = map getstate ms"
  by (simp add: map_update getstate_reindexed list_update_same_conv)

lemma getstate_metadata: "state_metadata (getstate m) = obj_metadata m"
  by (simp add: getstate_def)

lemma refs_valid_iff:
  "refs_valid s = (\<forall>st \<in> set (map getstate (model_objects s)). state_metadata st < length (dict_objects s))"
  by (simp add: refs_valid_def list_all_iff getstate_metadata)

lemma export_states_returned:
  assumes "refs_valid s" "export_states resolve ll rows s = (s', Returned (states, positions))"
  shows "\<exists>added. dict_objects s' = dict_objects s @ added
           \<and> length added = length rows \<and> length states = length rows
           \<and> map getstate (model_objects s') = map getstate (model_objects s)
           \<and> (\<forall>k < length rows. rows ! k < length (model_objects s)
                 \<and> states ! k = (getstate (model_objects s ! (rows ! k)))
                                   \<lparr>state_metadata := length (dict_objects s) + k\<rparr>
                 \<and> added ! k = strip_transient
                                  (dict_objects s ! obj_metadata (model_objects s ! (rows ! k))))"
  using assms
proof (induction rows arbitrary: s states positions)
  case Nil
  then show ?case by simp
next
  case (Cons row rows)
  from Cons.prems(2) obtain s1 state p1 states1 p2 where
    one: "export_one resolve ll s row = (s1, Returned (state, p1))"
    and rest: "export_states resolve ll rows s1 = (s', Returned (states1, p2))"
    and st: "states = state # states1"
    by (auto split: prod.splits outcome.splits)
  from export_one_returned [OF one] have row: "row < length (model_objects s)"
    and d1: "dict_objects s1
           = dict_objects s @ [strip_transient (dict_objects s ! obj_metadata (model_objects s ! row))]"
    and state: "state = (getstate (model_objects s ! row))\<lparr>state_metadata := length (dict_objects s)\<rparr>"
    and m1: "model_objects s1
           = (model_objects s)[row := (model_objects s ! row)\<lparr>obj_transition_indices := p1\<rparr>]"
    by auto
  from m1 row have g1: "map getstate (model_objects s1) = map getstate (model_objects s)"
    by (simp add: map_getstate_update)
  from Cons.prems(1) g1 d1 have v1: "refs_valid s1"
    by (auto simp: refs_valid_iff)
  from Cons.IH [OF v1 rest] obtain added where
    a: "dict_objects s' = dict_objects s1 @ added" "length added = length rows"
       "length states1 = length rows"
       "map getstate (model_objects s') = map getstate (model_objects s1)"
    and each: "\<forall>k < length rows. rows ! k < length (model_objects s1)
                 \<and> states1 ! k = (getstate (model_objects s1 ! (rows ! k)))
                                   \<lparr>state_metadata := length (dict_objects s1) + k\<rparr>
                 \<and> added ! k = strip_transient
                                  (dict_objects s1 ! obj_metadata (model_objects s1 ! (rows ! k)))"
    by blast
  have len: "length (model_objects s1) = length (model_objects s)" using m1 by simp
  let ?first = "strip_transient (dict_objects s ! obj_metadata (model_objects s ! row))"
  have same: "\<And>r. r < length (model_objects s) \<Longrightarrow>
        getstate (model_objects s1 ! r) = getstate (model_objects s ! r)"
  proof -
    fix r assume r: "r < length (model_objects s)"
    with len have "map getstate (model_objects s1) ! r = getstate (model_objects s1 ! r)" by simp
    moreover from r have "map getstate (model_objects s) ! r = getstate (model_objects s ! r)" by simp
    ultimately show "getstate (model_objects s1 ! r) = getstate (model_objects s ! r)"
      using g1 by simp
  qed
  have all: "\<forall>k < length (row # rows). (row # rows) ! k < length (model_objects s)
                 \<and> states ! k = (getstate (model_objects s ! ((row # rows) ! k)))
                                   \<lparr>state_metadata := length (dict_objects s) + k\<rparr>
                 \<and> (?first # added) ! k = strip_transient
                       (dict_objects s ! obj_metadata (model_objects s ! ((row # rows) ! k)))"
  proof (intro allI impI)
    fix k assume k: "k < length (row # rows)"
    show "(row # rows) ! k < length (model_objects s)
                 \<and> states ! k = (getstate (model_objects s ! ((row # rows) ! k)))
                                   \<lparr>state_metadata := length (dict_objects s) + k\<rparr>
                 \<and> (?first # added) ! k = strip_transient
                       (dict_objects s ! obj_metadata (model_objects s ! ((row # rows) ! k)))"
    proof (cases k)
      case 0
      with row state st show ?thesis by simp
    next
      case (Suc j)
      with k have j: "j < length rows" by simp
      with each have r: "rows ! j < length (model_objects s1)"
        and sj: "states1 ! j = (getstate (model_objects s1 ! (rows ! j)))
                                   \<lparr>state_metadata := length (dict_objects s1) + j\<rparr>"
        and aj: "added ! j = strip_transient
                   (dict_objects s1 ! obj_metadata (model_objects s1 ! (rows ! j)))"
        by auto
      from r len have r': "rows ! j < length (model_objects s)" by simp
      from same [OF r'] have gs: "getstate (model_objects s1 ! (rows ! j))
            = getstate (model_objects s ! (rows ! j))" .
      then have om: "obj_metadata (model_objects s1 ! (rows ! j))
            = obj_metadata (model_objects s ! (rows ! j))"
        by (simp add: getstate_def)
      from Cons.prems(1) r' have "obj_metadata (model_objects s ! (rows ! j)) < length (dict_objects s)"
        by (simp add: refs_valid_def list_all_length)
      with d1 have look: "dict_objects s1 ! obj_metadata (model_objects s ! (rows ! j))
           = dict_objects s ! obj_metadata (model_objects s ! (rows ! j))"
        by (simp add: nth_append)
      from d1 have l1: "length (dict_objects s1) = Suc (length (dict_objects s))" by simp
      from Suc r' sj aj gs om look l1 st show ?thesis by simp
    qed
  qed
  have "dict_objects s' = dict_objects s @ (?first # added)" using a(1) d1 by simp
  moreover have "length (?first # added) = length (row # rows)" using a(2) by simp
  moreover have "length states = length (row # rows)" using a(3) st by simp
  moreover have "map getstate (model_objects s') = map getstate (model_objects s)"
    using a(4) g1 by simp
  ultimately show ?case using all by blast
qed


lemma export_states_promise:
  assumes "refs_valid s" "export_states resolve ll rows s = (s', Returned (states, positions))"
  shows "stripped_copies s rows (map (serialize (dict_objects s')) states) \<and> session_kept s s'"
    and "stripped_copies s rows
           (map (\<lambda>st. serialize (dict_objects s')
                   (st\<lparr>state_transition_hashes := map format_hash (state_transition_hashes st)\<rparr>))
              states)"
proof -
  from export_states_returned [OF assms] obtain added where
    d: "dict_objects s' = dict_objects s @ added"
    and la: "length added = length rows" and ls: "length states = length rows"
    and g: "map getstate (model_objects s') = map getstate (model_objects s)"
    and each: "\<forall>k < length rows. rows ! k < length (model_objects s)
                 \<and> states ! k = (getstate (model_objects s ! (rows ! k)))
                                   \<lparr>state_metadata := length (dict_objects s) + k\<rparr>
                 \<and> added ! k = strip_transient
                                  (dict_objects s ! obj_metadata (model_objects s ! (rows ! k)))"
    by blast
  have fmt: "\<And>hs. map format_hash hs = hs"
    by (simp add: format_hash_def map_idI)
  have ser: "\<forall>k < length rows. serialize (dict_objects s') (states ! k)
        = \<lparr>exported_type = obj_kind (model_objects s ! (rows ! k)),
           exported_transition_hashes = obj_transition_hashes (model_objects s ! (rows ! k)),
           exported_metadata = strip_transient
              (dict_objects s ! obj_metadata (model_objects s ! (rows ! k)))\<rparr>"
  proof (intro allI impI)
    fix k assume k: "k < length rows"
    with each have sk: "states ! k = (getstate (model_objects s ! (rows ! k)))
                                   \<lparr>state_metadata := length (dict_objects s) + k\<rparr>"
      and ak: "added ! k = strip_transient
                 (dict_objects s ! obj_metadata (model_objects s ! (rows ! k)))" by auto
    from d have "dict_objects s' ! (length (dict_objects s) + k) = added ! k" by simp
    with sk ak show "serialize (dict_objects s') (states ! k)
        = \<lparr>exported_type = obj_kind (model_objects s ! (rows ! k)),
           exported_transition_hashes = obj_transition_hashes (model_objects s ! (rows ! k)),
           exported_metadata = strip_transient
              (dict_objects s ! obj_metadata (model_objects s ! (rows ! k)))\<rparr>"
      by (simp add: serialize_def getstate_def)
  qed
  have copies: "stripped_copies s rows (map (serialize (dict_objects s')) states)"
    unfolding stripped_copies_def using ls ser by (simp add: strip_transient_def)
  have kept: "session_kept s s'"
    unfolding session_kept_def using d g by simp
  from copies kept
  show "stripped_copies s rows (map (serialize (dict_objects s')) states) \<and> session_kept s s'" ..
  have same: "\<And>st. serialize (dict_objects s')
                   (st\<lparr>state_transition_hashes := map format_hash (state_transition_hashes st)\<rparr>)
                 = serialize (dict_objects s') st"
    by (simp add: fmt serialize_def)
  from copies show "stripped_copies s rows
           (map (\<lambda>st. serialize (dict_objects s')
                   (st\<lparr>state_transition_hashes := map format_hash (state_transition_hashes st)\<rparr>))
              states)"
    by (simp add: same)
qed


text \<open>
  Claim C7. For every spectral model exported to an archive or saved as a session
  default, the serialized state contains neither the \<open>fitted_result\<close> nor the
  \<open>is_acceptable\<close> metadata entry, and every other part of the model's state (type,
  transition hashes, every other metadata entry) is carried over as it is. The export
  leaves the session's models alone: every metadata dict of the session has the entries
  it had, and every model has the state it had (the call only refreshes the cached
  transition positions of the exported models), because the entries are popped from a
  deep copy.
\<close>

theorem C7_export_strips_a_copy:
  assumes "refs_valid s"
  shows "(export_selected_spectral_models resolve ll rows s = (s', Returned (lines_out, exported))
            \<longrightarrow> stripped_copies s rows exported \<and> session_kept s s')
       \<and> (save_as_default resolve ll s = (s'', Returned defaults)
            \<longrightarrow> stripped_copies s [0..<length (model_objects s)] defaults \<and> session_kept s s'')"
proof (intro conjI impI)
  assume e: "export_selected_spectral_models resolve ll rows s = (s', Returned (lines_out, exported))"
  then obtain states positions where
    st: "export_states resolve ll rows s = (s', Returned (states, positions))"
    and ex: "exported = map (serialize (dict_objects s')) states"
    by (auto simp: export_selected_spectral_models_def split: prod.splits outcome.splits if_splits)
  from export_states_promise(1) [OF assms st] ex
  show "stripped_copies s rows exported" "session_kept s s'" by simp_all
next
  assume e: "save_as_default resolve ll s = (s'', Returned defaults)"
  then obtain states positions where
    st: "export_states resolve ll [0..<length (model_objects s)] s = (s'', Returned (states, positions))"
    and ex: "defaults = map (\<lambda>st. serialize (dict_objects s'')
                   (st\<lparr>state_transition_hashes := map format_hash (state_transition_hashes st)\<rparr>))
              states"
    by (auto simp: save_as_default_def split: prod.splits outcome.splits)
  from export_states_promise [OF assms st] ex
  show "stripped_copies s [0..<length (model_objects s)] defaults" "session_kept s s''" by simp_all
qed

theorem C7_export_strips_a_copy_witness:
  "refs_valid two_objects
   \<and> (case export_selected_spectral_models hash_positions [line_h1, line_h2, line_h3] [0]
             two_objects of
         (s', Returned (lines_out, exported)) \<Rightarrow>
            lines_out = [line_h2]
            \<and> map exported_type exported = [ProfileFittingModel]
            \<and> map exported_transition_hashes exported = [[''h2'']]
            \<and> map (\<lambda>e. exported_metadata e ''fitted_result'') exported = [None]
            \<and> map (\<lambda>e. exported_metadata e ''is_acceptable'') exported = [None]
            \<and> map (\<lambda>e. exported_metadata e ''window'') exported = [Some ''5'']
            \<and> (dict_objects s' ! 0) ''fitted_result'' = Some ''p_opt''
            \<and> (dict_objects s' ! 0) ''is_acceptable'' = Some ''True''
            \<and> map obj_metadata (model_objects s') = [0, 1]
       | (s', Raised err) \<Rightarrow> False)
   \<and> (case save_as_default hash_positions [line_h1, line_h2, line_h3] two_objects of
         (s', Returned defaults) \<Rightarrow>
            map exported_type defaults = [ProfileFittingModel, SpectralSynthesisModel]
            \<and> map exported_transition_hashes defaults = [[''h2''], [''h1'', ''h3'']]
            \<and> map (\<lambda>e. exported_metadata e ''fitted_result'') defaults = [None, None]
            \<and> map (\<lambda>e. exported_metadata e ''is_acceptable'') defaults = [None, None]
            \<and> map (\<lambda>e. exported_metadata e ''window'') defaults = [Some ''5'', Some ''10'']
            \<and> (dict_objects s' ! 0) ''fitted_result'' = Some ''p_opt''
            \<and> (dict_objects s' ! 0) ''is_acceptable'' = Some ''True''
       | (s', Raised err) \<Rightarrow> False)"
proof -
  have valid: "refs_valid two_objects"
    by code_simp
  have exported: "case export_selected_spectral_models hash_positions [line_h1, line_h2, line_h3] [0]
             two_objects of
         (s', Returned (lines_out, exported)) \<Rightarrow>
            lines_out = [line_h2]
            \<and> map exported_type exported = [ProfileFittingModel]
            \<and> map exported_transition_hashes exported = [[''h2'']]
            \<and> map (\<lambda>e. exported_metadata e ''fitted_result'') exported = [None]
            \<and> map (\<lambda>e. exported_metadata e ''is_acceptable'') exported = [None]
            \<and> map (\<lambda>e. exported_metadata e ''window'') exported = [Some ''5'']
            \<and> (dict_objects s' ! 0) ''fitted_result'' = Some ''p_opt''
            \<and> (dict_objects s' ! 0) ''is_acceptable'' = Some ''True''
            \<and> map obj_metadata (model_objects s') = [0, 1]
       | (s', Raised err) \<Rightarrow> False"
    by code_simp
  have saved: "case save_as_default hash_positions [line_h1, line_h2, line_h3] two_objects of
         (s', Returned defaults) \<Rightarrow>
            map exported_type defaults = [ProfileFittingModel, SpectralSynthesisModel]
            \<and> map exported_transition_hashes defaults = [[''h2''], [''h1'', ''h3'']]
            \<and> map (\<lambda>e. exported_metadata e ''fitted_result'') defaults = [None, None]
            \<and> map (\<lambda>e. exported_metadata e ''is_acceptable'') defaults = [None, None]
            \<and> map (\<lambda>e. exported_metadata e ''window'') defaults = [Some ''5'', Some ''10'']
            \<and> (dict_objects s' ! 0) ''fitted_result'' = Some ''p_opt''
            \<and> (dict_objects s' ! 0) ''is_acceptable'' = Some ''True''
       | (s', Raised err) \<Rightarrow> False"
    by code_simp
  from exported obtain s' lines_out out where
    returned: "export_selected_spectral_models hash_positions [line_h1, line_h2, line_h3] [0]
                 two_objects = (s', Returned (lines_out, out))"
    by (auto split: prod.splits outcome.splits)
  from saved obtain s'' defaults where
    stored: "save_as_default hash_positions [line_h1, line_h2, line_h3] two_objects
               = (s'', Returned defaults)"
    by (auto split: prod.splits outcome.splits)
  from C7_export_strips_a_copy [OF valid, of hash_positions "[line_h1, line_h2, line_h3]" "[0]"
      s' lines_out out s'' defaults] returned stored
  have "stripped_copies two_objects [0] out \<and> session_kept two_objects s'
        \<and> stripped_copies two_objects [0..<length (model_objects two_objects)] defaults
        \<and> session_kept two_objects s''"
    by blast
  with valid exported saved show ?thesis by simp
qed

section \<open>Theorems: masking a region in the spectrum display\<close>

lemma mask_step_refl: "mask_step m m"
  by (simp add: mask_step_def)

lemma run_fit_keeps_mask:
  "run_fit fit m = Inr m' \<Longrightarrow> mask_of m' = mask_of m \<and> antimask_mode m' = antimask_mode m"
  by (auto simp: run_fit_def mask_of_def antimask_mode_def split: fit_result.splits)

lemma mask_step_update:
  assumes "i < length ms" "mask_step (ms ! i) m'"
  shows "\<forall>j < length ms. mask_step (ms ! j) (ms[i := m'] ! j)"
  using assms by (auto simp: nth_list_update mask_step_refl)

lemma models_step_same: "shown_models d' = shown_models d \<Longrightarrow> models_step d d'"
  by (simp add: models_step_def mask_step_refl)

lemma models_step_update:
  "i < length (shown_models d) \<Longrightarrow> mask_step (shown_models d ! i) m'
     \<Longrightarrow> shown_models d' = (shown_models d)[i := m'] \<Longrightarrow> models_step d d'"
  using mask_step_update [of i "shown_models d" m'] by (simp add: models_step_def)

lemma selected_object_Some:
  "selected_object d = Some (i, m) \<Longrightarrow> i < length (shown_models d) \<and> m = shown_models d ! i"
  by (auto simp: selected_object_def split: option.splits if_splits)

lemma update_selected_models [simp]:
  "shown_models (update_selected_model sel d) = shown_models d"
  by (simp add: update_selected_model_def)

lemma update_spectrum_figure_models [simp]:
  "shown_models (fst (update_spectrum_figure sel d)) = shown_models d"
  by (simp add: update_spectrum_figure_def Let_def split: option.splits)

lemma np_unbound: "lookup_name base_py_globals ''np'' = Inl NameError"
  by (simp add: lookup_name_def base_py_globals_def)

lemma time_unbound: "lookup_name base_py_globals ''time'' = Inl NameError"
  by (simp add: lookup_name_def base_py_globals_def)

lemma press_step:
  "models_step d (fst (spectrum_left_mouse_press fit event shift sel now d))"
proof (cases "button event \<noteq> 1 \<or> \<not> inaxes event \<or> dblclick event")
  case True
  then show ?thesis
    by (auto simp: spectrum_left_mouse_press_def Let_def remove_mask_always_raises
        intro!: models_step_same)
next
  case False
  let ?d1 = "update_selected_model sel d"
  show ?thesis
  proof (cases "selected_object ?d1")
    case None
    with False show ?thesis
      by (auto simp: spectrum_left_mouse_press_def Let_def intro!: models_step_same)
  next
    case (Some im)
    obtain i m where im: "im = (i, m)" by (cases im)
    with Some selected_object_Some [of ?d1 i m]
    have i: "i < length (shown_models d)" and m: "m = shown_models d ! i" by simp_all
    show ?thesis
    proof (cases "md_antimask_flag m")
      case None
      with False Some im show ?thesis
        by (auto simp: spectrum_left_mouse_press_def Let_def intro!: models_step_same)
    next
      case (Some flag)
      let ?m1 = "if flag \<noteq> shift then m\<lparr>md_mask := Some [], md_antimask_flag := Some (\<not> flag)\<rparr> else m"
      have st: "mask_step (shown_models d ! i) ?m1"
        using m by (simp add: mask_step_def mask_of_def)
      have "shown_models (fst (spectrum_left_mouse_press fit event shift sel now d))
              = (shown_models d)[i := ?m1]"
        using False \<open>selected_object ?d1 = Some im\<close> im Some
        by (simp add: spectrum_left_mouse_press_def Let_def split: sum.splits)
      with i st show ?thesis by (rule models_step_update)
    qed
  qed
qed

lemma motion_step: "models_step d (fst (update_mask_region event now d))"
  by (auto simp: update_mask_region_def split: option.splits drag_signal.splits sum.splits
      intro!: models_step_same)

lemma release_cleanup_models [simp]:
  "shown_models (fst (release_cleanup sel d)) = shown_models d"
  by (simp add: release_cleanup_def split: sum.splits)

lemma release_append_step: "models_step d (fst (release_append fit sel d))"
proof (cases "selected_object d")
  case None
  then show ?thesis by (simp add: release_append_def models_step_same)
next
  case (Some im)
  obtain i m where im: "im = (i, m)" by (cases im)
  with Some selected_object_Some [of d i m]
  have i: "i < length (shown_models d)" and m: "m = shown_models d ! i" by simp_all
  show ?thesis
  proof (cases "md_mask m")
    case None
    with \<open>selected_object d = Some im\<close> im show ?thesis
      by (simp add: release_append_def models_step_same)
  next
    case (Some ms)
    let ?m1 = "m\<lparr>md_mask := Some (ms @ [(py_min (patch_x0 d) (patch_x2 d),
                                           py_max (patch_x0 d) (patch_x2 d))])\<rparr>"
    have st1: "mask_step (shown_models d ! i) ?m1"
      using m Some by (simp add: mask_step_def mask_of_def antimask_mode_def)
    show ?thesis
    proof (cases "run_fit fit ?m1")
      case (Inl err)
      have "shown_models (fst (release_append fit sel d)) = (shown_models d)[i := ?m1]"
        using \<open>selected_object d = Some im\<close> im Some Inl
        by (simp add: release_append_def Let_def)
      with i st1 show ?thesis by (rule models_step_update)
    next
      case (Inr m2)
      from run_fit_keeps_mask [OF Inr] st1
      have st2: "mask_step (shown_models d ! i) m2" by (simp add: mask_step_def)
      have "shown_models (fst (release_append fit sel d)) = (shown_models d)[i := m2]"
        using \<open>selected_object d = Some im\<close> im Some Inr
        by (simp add: release_append_def Let_def)
      with i st2 show ?thesis by (rule models_step_update)
    qed
  qed
qed

lemma release_step:
  "models_step d (fst (spectrum_left_mouse_release fit event sel now d))"
  by (auto simp: spectrum_left_mouse_release_def Let_def release_append_step
      split: drag_signal.splits sum.splits intro!: models_step_same)

lemma after_event_step: "models_step d (after_event fit event d)"
  by (cases event) (simp_all add: press_step motion_step release_step)

lemma track_modes_one_mode:
  assumes "mask_step before after"
    and "length ms = length (mask_of before)" "list_all (\<lambda>b. b = antimask_mode before) ms"
  shows "length (track_modes before after ms) = length (mask_of after)
         \<and> list_all (\<lambda>b. b = antimask_mode after) (track_modes before after ms)"
proof (cases "mask_of after = mask_of before")
  case True
  show ?thesis
  proof (cases "mask_of after = []")
    case True
    with \<open>mask_of after = mask_of before\<close> assms(2) show ?thesis by (simp add: track_modes_def)
  next
    case False
    with True assms(1) have "antimask_mode after = antimask_mode before"
      by (auto simp: mask_step_def)
    with True assms(2,3) show ?thesis by (simp add: track_modes_def)
  qed
next
  case False
  show ?thesis
  proof (cases "mask_of after = []")
    case True
    with False show ?thesis by (simp add: track_modes_def)
  next
    case nonempty: False
    with False assms(1) have bl: "butlast (mask_of after) = mask_of before"
      and mode: "antimask_mode after = antimask_mode before" by (auto simp: mask_step_def)
    from nonempty have "length (mask_of after) = Suc (length (butlast (mask_of after)))" by simp
    with bl have "length (mask_of after) = Suc (length (mask_of before))" by simp
    with False nonempty bl mode assms(2,3) show ?thesis by (simp add: track_modes_def)
  qed
qed

lemma observed_event_one_mode:
  assumes "one_mode (d, modes)"
  shows "one_mode (observed_event fit event (d, modes))"
proof -
  let ?d' = "after_event fit event d"
  let ?modes' = "map (\<lambda>((before, after), ms). track_modes before after ms)
                  (zip (zip (shown_models d) (shown_models ?d')) modes)"
  from after_event_step [of d fit event] have len: "length (shown_models ?d') = length (shown_models d)"
    and steps: "\<forall>j < length (shown_models d). mask_step (shown_models d ! j) (shown_models ?d' ! j)"
    by (simp_all add: models_step_def)
  from assms have lm: "length modes = length (shown_models d)"
    and inv: "\<forall>j < length (shown_models d). length (modes ! j) = length (mask_of (shown_models d ! j))
                \<and> list_all (\<lambda>b. b = antimask_mode (shown_models d ! j)) (modes ! j)"
    by (auto simp: one_mode_def list_all_length)
  have lm': "length ?modes' = length (shown_models ?d')" using len lm by simp
  have "\<forall>j < length (shown_models ?d'). length (?modes' ! j) = length (mask_of (shown_models ?d' ! j))
                \<and> list_all (\<lambda>b. b = antimask_mode (shown_models ?d' ! j)) (?modes' ! j)"
  proof (intro allI impI)
    fix j assume j: "j < length (shown_models ?d')"
    with len lm have nth: "?modes' ! j = track_modes (shown_models d ! j) (shown_models ?d' ! j) (modes ! j)"
      by simp
    from j len steps inv
    have "mask_step (shown_models d ! j) (shown_models ?d' ! j)"
      "length (modes ! j) = length (mask_of (shown_models d ! j))"
      "list_all (\<lambda>b. b = antimask_mode (shown_models d ! j)) (modes ! j)" by auto
    from track_modes_one_mode [OF this] nth
    show "length (?modes' ! j) = length (mask_of (shown_models ?d' ! j))
                \<and> list_all (\<lambda>b. b = antimask_mode (shown_models ?d' ! j)) (?modes' ! j)" by simp
  qed
  with lm' have "one_mode (?d', ?modes')"
    by (auto simp: one_mode_def list_all_length)
  then show ?thesis by (simp add: observed_event_def Let_def)
qed

lemma observed_run_one_mode:
  "one_mode observed \<Longrightarrow> one_mode (observed_run fit events observed)"
proof (induction events arbitrary: observed)
  case Nil
  then show ?case by simp
next
  case (Cons event events)
  obtain d modes where o: "observed = (d, modes)" by (cases observed)
  with Cons.prems have "one_mode (observed_event fit event observed)"
    by (simp add: observed_event_one_mode)
  then show ?case by (simp add: Cons.IH)
qed

lemma press_clears:
  assumes "button event = 1" "inaxes event" "\<not> dblclick event"
    and "i < length (shown_models d)" "md_antimask_flag (shown_models d ! i) = Some flag"
    and "flag \<noteq> shift"
  shows "md_mask (shown_models (fst (spectrum_left_mouse_press fit event shift (Some i) now d)) ! i)
           = Some []
       \<and> md_antimask_flag (shown_models (fst (spectrum_left_mouse_press fit event shift (Some i) now d)) ! i)
           = Some (\<not> flag)"
  using assms
  by (simp add: spectrum_left_mouse_press_def Let_def selected_object_def update_selected_model_def
      split: sum.splits)

lemma press_raises:
  assumes "button event = 1" "inaxes event" "\<not> dblclick event"
    and "i < length (shown_models d)" "md_antimask_flag (shown_models d ! i) = Some flag"
  shows "snd (spectrum_left_mouse_press fit event shift (Some i) now d) = Raised NameError
       \<and> mask_signal (fst (spectrum_left_mouse_press fit event shift (Some i) now d))
           = mask_signal d"
  using assms
  by (simp add: spectrum_left_mouse_press_def Let_def selected_object_def update_selected_model_def
      np_unbound)


text \<open>
  Claim C10. When a mask drag is started (a single left click inside the axes) with a
  shift-key state that differs from the antimask flag of the selected model, the press
  handler itself empties the model's mask list and inverts the flag, before anything
  else; a new interval is only appended by a release. Consequently no model ever holds
  intervals created in mask mode together with intervals created in antimask mode: if
  the record of creation modes agrees with the current mode of every model, it still
  does after any sequence of presses, motions and releases, whether the handlers return
  or raise.

  In \<open>smh/gui/base.py\<close> the press handler does not get further than that: its next
  statement reads \<open>np.nan\<close>, the module does not import \<open>numpy\<close>, and the handler raises
  \<open>NameError\<close> with the mask list emptied, the flag inverted and the signal of the drag
  as it was.
\<close>

theorem C10_mode_switch_empties_mask:
  "(button event = 1 \<and> inaxes event \<and> \<not> dblclick event \<and> i < length (shown_models d)
      \<and> md_antimask_flag (shown_models d ! i) = Some flag \<and> flag \<noteq> shift
    \<longrightarrow> md_mask (shown_models (fst (spectrum_left_mouse_press fit event shift (Some i) now d)) ! i)
            = Some []
        \<and> md_antimask_flag
            (shown_models (fst (spectrum_left_mouse_press fit event shift (Some i) now d)) ! i)
            = Some (\<not> flag)
        \<and> snd (spectrum_left_mouse_press fit event shift (Some i) now d) = Raised NameError
        \<and> mask_signal (fst (spectrum_left_mouse_press fit event shift (Some i) now d))
            = mask_signal d)
   \<and> (one_mode observed \<longrightarrow> one_mode (observed_run fit events observed))"
  using press_clears [of event i d flag shift fit now] press_raises [of event i d flag fit shift now]
    observed_run_one_mode [of observed fit events]
  by blast

theorem C10_mode_switch_witness:
  "button (left_click 5002) = 1 \<and> inaxes (left_click 5002) \<and> \<not> dblclick (left_click 5002)
   \<and> (0::nat) < length (shown_models masked_display)
   \<and> md_antimask_flag (shown_models masked_display ! 0) = Some False \<and> False \<noteq> True
   \<and> md_mask (shown_models masked_display ! 0) = Some [(Fin 1, Fin 2)]
   \<and> md_mask (shown_models (fst (spectrum_left_mouse_press fit_succeeds (left_click 5002) True
        (Some 0) 20 masked_display)) ! 0) = Some []
   \<and> md_antimask_flag (shown_models (fst (spectrum_left_mouse_press fit_succeeds (left_click 5002)
        True (Some 0) 20 masked_display)) ! 0) = Some True
   \<and> snd (spectrum_left_mouse_press fit_succeeds (left_click 5002) True (Some 0) 20 masked_display)
       = Raised NameError
   \<and> mask_signal (fst (spectrum_left_mouse_press fit_succeeds (left_click 5002) True (Some 0) 20
        masked_display)) = SignalNone
   \<and> one_mode (masked_display, [[False]])
   \<and> one_mode (observed_run fit_succeeds two_drags (masked_display, [[False]]))
   \<and> map mask_of (shown_models (fst (observed_run fit_succeeds two_drags (masked_display, [[False]]))))
       = [[]]
   \<and> map md_antimask_flag
        (shown_models (fst (observed_run fit_succeeds two_drags (masked_display, [[False]]))))
       = [Some True]
   \<and> snd (observed_run fit_succeeds two_drags (masked_display, [[False]])) = [[]]"
proof -
  have click: "button (left_click 5002) = 1 \<and> inaxes (left_click 5002) \<and> \<not> dblclick (left_click 5002)"
    by (simp add: left_click_def)
  have model: "(0::nat) < length (shown_models masked_display)
      \<and> md_antimask_flag (shown_models masked_display ! 0) = Some False
      \<and> md_mask (shown_models masked_display ! 0) = Some [(Fin 1, Fin 2)]
      \<and> mask_signal masked_display = SignalNone"
    by (simp add: masked_display_def fresh_display_def profile_on_def)
  have start: "one_mode (masked_display, [[False]])"
    by (simp add: one_mode_def masked_display_def fresh_display_def profile_on_def mask_of_def
        antimask_mode_def)
  have run: "observed_run fit_succeeds two_drags (masked_display, [[False]])
      = (\<lparr>shown_models =
            [(profile_on [''h1''])\<lparr>md_mask := Some [], md_antimask_flag := Some True\<rparr>],
          selected_model = Some 0, mask_signal = SignalNone, patch_x0 = NaN, patch_x2 = NaN\<rparr>,
         [[]])"
    by (simp add: two_drags_def masked_display_def fresh_display_def profile_on_def left_click_def
        fit_succeeds_def observed_event_def spectrum_left_mouse_press_def
        spectrum_left_mouse_release_def update_mask_region_def update_selected_model_def
        selected_object_def np_unbound time_unbound
        track_modes_def mask_of_def antimask_mode_def Let_def)
  from C10_mode_switch_empties_mask [of "left_click 5002" 0 masked_display False True
      fit_succeeds 20 "(masked_display, [[False]])" two_drags] click model start
  have "md_mask (shown_models (fst (spectrum_left_mouse_press fit_succeeds (left_click 5002) True
        (Some 0) 20 masked_display)) ! 0) = Some []
   \<and> md_antimask_flag (shown_models (fst (spectrum_left_mouse_press fit_succeeds (left_click 5002)
        True (Some 0) 20 masked_display)) ! 0) = Some True
   \<and> snd (spectrum_left_mouse_press fit_succeeds (left_click 5002) True (Some 0) 20 masked_display)
       = Raised NameError
   \<and> mask_signal (fst (spectrum_left_mouse_press fit_succeeds (left_click 5002) True (Some 0) 20
        masked_display)) = SignalNone
   \<and> one_mode (observed_run fit_succeeds two_drags (masked_display, [[False]]))"
    by simp
  with click model start run show ?thesis
    by (simp add: mask_of_def profile_on_def)
qed

end
